theory Spec2Isabelle
  imports Complex_Main "HOL-Library.Sublist"
begin

section \<open>Errors\<close>

text \<open>
  The exceptions the two modules can raise. \<open>ValueError msg\<close> is Python's built-in
  exception with its message. \<open>ValidationError model errs\<close> is the validation error of the
  pydantic classes: the name of the class being validated and one entry per offending
  field, each entry the path to the field and a message. \<open>SettingsError msg\<close> is raised when
  an environment variable of a list-valued setting cannot be decoded. \<open>Raised msg\<close> stands
  for any other exception, such as the one a registered class raises when it is called.
\<close>

datatype error =
    ValueError string
  | ValidationError string "(string list \<times> string) list"
  | SettingsError string
  | Raised string

type_synonym field_error = "string list \<times> string"

text \<open>
  Validation goes through the fields of a class in the order of their declaration and
  collects the errors of all of them; the object is built only when there is none. The
  result of validating one field is its value or its errors.
\<close>

type_synonym 'a field = "field_error list + 'a"

fun with_field :: "('a \<Rightarrow> 'b) field \<Rightarrow> 'a field \<Rightarrow> 'b field" where
  "with_field (Inr f) (Inr x) = Inr (f x)"
| "with_field (Inr f) (Inl es) = Inl es"
| "with_field (Inl es) (Inr x) = Inl es"
| "with_field (Inl es) (Inl es') = Inl (es @ es')"

fun raise_validation :: "string \<Rightarrow> 'a field \<Rightarrow> error + 'a" where
  "raise_validation model (Inr x) = Inr x"
| "raise_validation model (Inl es) = Inl (ValidationError model es)"

text \<open>
  An exception raised while a field is validated becomes the error of that field; the
  entries of a nested validation error are listed under the name of the field.
\<close>

fun errors_at :: "string \<Rightarrow> error \<Rightarrow> field_error list" where
  "errors_at name (ValidationError model es) = map (\<lambda>(loc, msg). (name # loc, msg)) es"
| "errors_at name (ValueError msg) = [([name], msg)]"
| "errors_at name (SettingsError var) = [([name], var)]"
| "errors_at name (Raised msg) = [([name], msg)]"

fun validated :: "string \<Rightarrow> error + 'a \<Rightarrow> 'a field" where
  "validated name (Inr x) = Inr x"
| "validated name (Inl e) = Inl (errors_at name e)"

section \<open>providers.py: the provider factory\<close>

text \<open>
  A registered provider class is called with no argument and yields an instance, or raises.
  The three class-level dictionaries of \<^verbatim>\<open>ProviderFactory\<close> are three separate
  objects; each \<^verbatim>\<open>register_*\<close> assigns one key in one of them in place, which the
  model renders by returning the updated factory state.
\<close>

type_synonym 'i provider_class = "unit \<Rightarrow> error + 'i"

record 'i ProviderFactory =
  search_providers :: "string \<rightharpoonup> 'i provider_class"
  vector_providers :: "string \<rightharpoonup> 'i provider_class"
  ai_providers :: "string \<rightharpoonup> 'i provider_class"

definition empty_factory :: "'i ProviderFactory" where
  "empty_factory =
     \<lparr>search_providers = Map.empty, vector_providers = Map.empty, ai_providers = Map.empty\<rparr>"

definition register_search_provider ::
  "string \<Rightarrow> 'i provider_class \<Rightarrow> 'i ProviderFactory \<Rightarrow> 'i ProviderFactory" where
  "register_search_provider name provider_class f =
     f\<lparr>search_providers := (search_providers f)(name \<mapsto> provider_class)\<rparr>"

definition register_vector_provider ::
  "string \<Rightarrow> 'i provider_class \<Rightarrow> 'i ProviderFactory \<Rightarrow> 'i ProviderFactory" where
  "register_vector_provider name provider_class f =
     f\<lparr>vector_providers := (vector_providers f)(name \<mapsto> provider_class)\<rparr>"

definition register_ai_provider ::
  "string \<Rightarrow> 'i provider_class \<Rightarrow> 'i ProviderFactory \<Rightarrow> 'i ProviderFactory" where
  "register_ai_provider name provider_class f =
     f\<lparr>ai_providers := (ai_providers f)(name \<mapsto> provider_class)\<rparr>"

definition create_search_provider :: "'i ProviderFactory \<Rightarrow> string \<Rightarrow> error + 'i" where
  "create_search_provider f provider_name =
     (case search_providers f provider_name of
        None \<Rightarrow> Inl (ValueError (''Unknown search provider: '' @ provider_name))
      | Some provider_class \<Rightarrow> provider_class ())"

definition create_vector_provider :: "'i ProviderFactory \<Rightarrow> string \<Rightarrow> error + 'i" where
  "create_vector_provider f provider_name =
     (case vector_providers f provider_name of
        None \<Rightarrow> Inl (ValueError (''Unknown vector provider: '' @ provider_name))
      | Some provider_class \<Rightarrow> provider_class ())"

definition create_ai_provider :: "'i ProviderFactory \<Rightarrow> string \<Rightarrow> error + 'i" where
  "create_ai_provider f provider_name =
     (case ai_providers f provider_name of
        None \<Rightarrow> Inl (ValueError (''Unknown AI provider: '' @ provider_name))
      | Some provider_class \<Rightarrow> provider_class ())"

text \<open>The three capabilities, to state properties of the factory uniformly.\<close>

datatype capability = Search | Vector | AI

fun registry :: "capability \<Rightarrow> 'i ProviderFactory \<Rightarrow> (string \<rightharpoonup> 'i provider_class)" where
  "registry Search f = search_providers f"
| "registry Vector f = vector_providers f"
| "registry AI f = ai_providers f"

fun register :: "capability \<Rightarrow> string \<Rightarrow> 'i provider_class \<Rightarrow> 'i ProviderFactory \<Rightarrow> 'i ProviderFactory" where
  "register Search = register_search_provider"
| "register Vector = register_vector_provider"
| "register AI = register_ai_provider"

fun create :: "capability \<Rightarrow> 'i ProviderFactory \<Rightarrow> string \<Rightarrow> error + 'i" where
  "create Search = create_search_provider"
| "create Vector = create_vector_provider"
| "create AI = create_ai_provider"

fun capability_word :: "capability \<Rightarrow> string" where
  "capability_word Search = ''search''"
| "capability_word Vector = ''vector''"
| "capability_word AI = ''AI''"

section \<open>providers.py: the data contracts\<close>

text \<open>
  The contracts are pydantic models without any validator: construction checks that the
  required fields are given and fills in the declared defaults, nothing else. A Python
  \<^verbatim>\<open>float\<close> is only stored here, never computed with, and is modelled by a real number;
  a \<^verbatim>\<open>datetime\<close> by its timestamp. The field \<^verbatim>\<open>text\<close> of \<^verbatim>\<open>SearchQuery\<close> is called
  \<open>query_text\<close>, since \<open>text\<close> is a keyword of Isabelle.
\<close>

type_synonym datetime = int

datatype SearchType = KEYWORD | SEMANTIC | HYBRID

datatype DocumentType = CSR | TMF

record SearchFilters =
  document_type :: "DocumentType option"
  study_id :: "string option"
  section_codes :: "string list option"
  date_range :: "(string \<times> datetime) list option"
  access_level :: "string option"

definition SearchFilters_new ::
  "DocumentType option \<Rightarrow> string option \<Rightarrow> string list option \<Rightarrow>
   (string \<times> datetime) list option \<Rightarrow> string option \<Rightarrow> error + SearchFilters" where
  "SearchFilters_new dt sid codes dates level =
     Inr \<lparr>document_type = dt, study_id = sid, section_codes = codes, date_range = dates,
          access_level = level\<rparr>"

record SearchQuery =
  query_text :: string
  search_type :: SearchType
  filters :: SearchFilters
  limit :: int
  offset :: int

text \<open>
  The keyword arguments of \<^verbatim>\<open>SearchQuery(...)\<close>: \<open>None\<close> is an argument that is not
  given. \<^verbatim>\<open>text\<close> has no default, the other four have.
\<close>

definition SearchQuery_new ::
  "string option \<Rightarrow> SearchType option \<Rightarrow> SearchFilters option \<Rightarrow> int option \<Rightarrow> int option
   \<Rightarrow> error + SearchQuery" where
  "SearchQuery_new txt st fs lmt off =
     (case txt of
        None \<Rightarrow> Inl (ValidationError ''SearchQuery'' [([''text''], ''field required'')])
      | Some t \<Rightarrow>
          Inr \<lparr>query_text = t,
               search_type = (case st of None \<Rightarrow> KEYWORD | Some x \<Rightarrow> x),
               filters = (case fs of
                            None \<Rightarrow> \<lparr>document_type = None, study_id = None,
                                      section_codes = None, date_range = None,
                                      access_level = None\<rparr>
                          | Some x \<Rightarrow> x),
               limit = (case lmt of None \<Rightarrow> 20 | Some x \<Rightarrow> x),
               offset = (case off of None \<Rightarrow> 0 | Some x \<Rightarrow> x)\<rparr>)"

record Citation =
  citation_id :: string
  document_id :: string
  page_number :: int
  section_reference :: string
  text_excerpt :: string
  confidence_score :: real
  provenance_chain :: "string list"
  created_at :: datetime

definition Citation_new ::
  "string \<Rightarrow> string \<Rightarrow> int \<Rightarrow> string \<Rightarrow> string \<Rightarrow> real \<Rightarrow> string list \<Rightarrow> datetime
   \<Rightarrow> error + Citation" where
  "Citation_new cid did page sec excerpt score chain created =
     Inr \<lparr>citation_id = cid, document_id = did, page_number = page,
          section_reference = sec, text_excerpt = excerpt, confidence_score = score,
          provenance_chain = chain, created_at = created\<rparr>"

record 'a EmbeddingResponse =
  embedding :: "real list"
  model_info :: "string \<rightharpoonup> 'a"
  dimension :: int
  generated_at :: datetime

definition EmbeddingResponse_new ::
  "real list \<Rightarrow> (string \<rightharpoonup> 'a) \<Rightarrow> int \<Rightarrow> datetime \<Rightarrow> error + 'a EmbeddingResponse" where
  "EmbeddingResponse_new emb info dimn generated =
     Inr \<lparr>embedding = emb, model_info = info, dimension = dimn, generated_at = generated\<rparr>"

subsection \<open>The dictionary form of a search query\<close>

text \<open>
  Modelled from the spec: the wire form of a \<^verbatim>\<open>SearchQuery\<close> and the conversions to and
  from it. The source declares the fields only; the conversions are the ones pydantic
  generates from the declarations (\<^verbatim>\<open>dict\<close> and \<^verbatim>\<open>parse_obj\<close>), and they are
  missing from the repository. The wire form has one entry per declared field of lines
  26 to 41, an enumeration member is written as its value (\<^verbatim>\<open>"keyword"\<close>, \<^verbatim>\<open>"CSR"\<close>), a
  nested model as its own dictionary, and an absent optional filter as a null entry. Reading
  the form back validates the enumeration values, collects the errors in the order of
  the fields, and calls the constructor. The message of an error is abbreviated to its
  first clause.
\<close>

fun SearchType_value :: "SearchType \<Rightarrow> string" where
  "SearchType_value KEYWORD = ''keyword''"
| "SearchType_value SEMANTIC = ''semantic''"
| "SearchType_value HYBRID = ''hybrid''"

definition SearchType_of_value :: "string \<Rightarrow> SearchType option" where
  "SearchType_of_value s =
     (if s = ''keyword'' then Some KEYWORD
      else if s = ''semantic'' then Some SEMANTIC
      else if s = ''hybrid'' then Some HYBRID
      else None)"

fun DocumentType_value :: "DocumentType \<Rightarrow> string" where
  "DocumentType_value CSR = ''CSR''"
| "DocumentType_value TMF = ''TMF''"

definition DocumentType_of_value :: "string \<Rightarrow> DocumentType option" where
  "DocumentType_of_value s =
     (if s = ''CSR'' then Some CSR else if s = ''TMF'' then Some TMF else None)"

record SearchFilters_wire =
  w_document_type :: "string option"
  w_study_id :: "string option"
  w_section_codes :: "string list option"
  w_date_range :: "(string \<times> datetime) list option"
  w_access_level :: "string option"

record SearchQuery_wire =
  w_text :: "string option"
  w_search_type :: "string option"
  w_filters :: "SearchFilters_wire option"
  w_limit :: "int option"
  w_offset :: "int option"

definition SearchFilters_dict :: "SearchFilters \<Rightarrow> SearchFilters_wire" where
  "SearchFilters_dict f =
     \<lparr>w_document_type = map_option DocumentType_value (document_type f),
      w_study_id = study_id f, w_section_codes = section_codes f,
      w_date_range = date_range f, w_access_level = access_level f\<rparr>"

definition SearchQuery_dict :: "SearchQuery \<Rightarrow> SearchQuery_wire" where
  "SearchQuery_dict q =
     \<lparr>w_text = Some (query_text q),
      w_search_type = Some (SearchType_value (search_type q)),
      w_filters = Some (SearchFilters_dict (filters q)),
      w_limit = Some (limit q), w_offset = Some (offset q)\<rparr>"

definition enum_field :: "(string \<Rightarrow> 'a option) \<Rightarrow> string \<Rightarrow> string option \<Rightarrow> 'a option field" where
  "enum_field of_value name w =
     (case w of
        None \<Rightarrow> Inr None
      | Some s \<Rightarrow> (case of_value s of
                     None \<Rightarrow> Inl [([name], ''value is not a valid enumeration member'')]
                   | Some x \<Rightarrow> Inr (Some x)))"

definition SearchFilters_parse_obj :: "SearchFilters_wire \<Rightarrow> error + SearchFilters" where
  "SearchFilters_parse_obj w =
     (case raise_validation ''SearchFilters''
             (with_field
                (Inr (\<lambda>dt. SearchFilters_new dt (w_study_id w) (w_section_codes w)
                             (w_date_range w) (w_access_level w)))
                (enum_field DocumentType_of_value ''document_type'' (w_document_type w))) of
        Inl e \<Rightarrow> Inl e
      | Inr r \<Rightarrow> r)"

definition SearchQuery_parse_obj :: "SearchQuery_wire \<Rightarrow> error + SearchQuery" where
  "SearchQuery_parse_obj w =
     (case raise_validation ''SearchQuery''
             (with_field (with_field (with_field
                (Inr (\<lambda>t st fs. SearchQuery_new (Some t) st fs (w_limit w) (w_offset w)))
                (case w_text w of
                   None \<Rightarrow> Inl [([''text''], ''field required'')]
                 | Some t \<Rightarrow> Inr t))
                (enum_field SearchType_of_value ''search_type'' (w_search_type w)))
                (case w_filters w of
                   None \<Rightarrow> Inr None
                 | Some fw \<Rightarrow> validated ''filters'' (map_sum id Some (SearchFilters_parse_obj fw)))) of
        Inl e \<Rightarrow> Inl e
      | Inr r \<Rightarrow> r)"

section \<open>config.py: settings read from the environment\<close>

text \<open>
  Every settings class is a pydantic \<^verbatim>\<open>BaseSettings\<close>: calling the class reads each
  field from the environment variable that the field names, falls back on the declared
  default, and raises a validation error listing every field that is required and missing
  or that cannot be converted to its type. The settings classes compare the names of
  the variables without regard to case (\<^verbatim>\<open>case_sensitive = False\<close>): an environment maps
  the case-folded name of a variable, written here in the capitals of the source, to its
  string value. The messages of the validation errors are abbreviated to their first
  clause.

  The conversions of a string to an integer, a float, a boolean and a list are pydantic's;
  they are not part of this repository and are taken as parameters. The variable of a
  list-valued field holds JSON: it may not be JSON at all, be JSON but not a list, or be a
  list.
\<close>

type_synonym env = "string \<rightharpoonup> string"

datatype json_list = NotJSON | NotList | JSONList "string list"

record coercions =
  to_int :: "string \<Rightarrow> int option"
  to_float :: "string \<Rightarrow> real option"
  to_bool :: "string \<Rightarrow> bool option"
  to_list :: "string \<Rightarrow> json_list"

definition str_field :: "env \<Rightarrow> string \<Rightarrow> string \<Rightarrow> string option \<Rightarrow> string field" where
  "str_field env var name dflt =
     (case env var of
        Some s \<Rightarrow> Inr s
      | None \<Rightarrow> (case dflt of
                   Some d \<Rightarrow> Inr d
                 | None \<Rightarrow> Inl [([name], ''field required'')]))"

definition typed_field ::
  "(string \<Rightarrow> 'a option) \<Rightarrow> string \<Rightarrow> env \<Rightarrow> string \<Rightarrow> string \<Rightarrow> 'a \<Rightarrow> 'a field" where
  "typed_field parse msg env var name dflt =
     (case env var of
        None \<Rightarrow> Inr dflt
      | Some s \<Rightarrow> (case parse s of
                     Some x \<Rightarrow> Inr x
                   | None \<Rightarrow> Inl [([name], msg)]))"

definition int_field :: "coercions \<Rightarrow> env \<Rightarrow> string \<Rightarrow> string \<Rightarrow> int \<Rightarrow> int field" where
  "int_field P = typed_field (to_int P) ''value is not a valid integer''"

definition float_field :: "coercions \<Rightarrow> env \<Rightarrow> string \<Rightarrow> string \<Rightarrow> real \<Rightarrow> real field" where
  "float_field P = typed_field (to_float P) ''value is not a valid float''"

definition bool_field :: "coercions \<Rightarrow> env \<Rightarrow> string \<Rightarrow> string \<Rightarrow> bool \<Rightarrow> bool field" where
  "bool_field P = typed_field (to_bool P) ''value could not be parsed to a boolean''"

definition literal_field ::
  "env \<Rightarrow> string \<Rightarrow> string \<Rightarrow> string list \<Rightarrow> string \<Rightarrow> string field" where
  "literal_field env var name permitted dflt =
     (case env var of
        None \<Rightarrow> Inr dflt
      | Some s \<Rightarrow> if s \<in> set permitted then Inr s else Inl [([name], ''unexpected value'')])"

record BedrockConfig =
  bedrock_region :: string
  claude_model_id :: string
  titan_model_id :: string
  max_tokens :: int
  temperature :: real

definition BedrockConfig_new :: "coercions \<Rightarrow> env \<Rightarrow> error + BedrockConfig" where
  "BedrockConfig_new P env =
     raise_validation ''BedrockConfig''
       (with_field (with_field (with_field (with_field (with_field
          (Inr (\<lambda>a b c d e. \<lparr>bedrock_region = a, claude_model_id = b, titan_model_id = c,
                               max_tokens = d, temperature = e\<rparr>))
          (str_field env ''BEDROCK_REGION'' ''region'' (Some ''us-east-1'')))
          (str_field env ''BEDROCK_CLAUDE_MODEL'' ''claude_model_id''
             (Some ''anthropic.claude-3-sonnet-20240229-v1:0'')))
          (str_field env ''BEDROCK_TITAN_MODEL'' ''titan_model_id''
             (Some ''amazon.titan-text-express-v1'')))
          (int_field P env ''BEDROCK_MAX_TOKENS'' ''max_tokens'' 4000))
          (float_field P env ''BEDROCK_TEMPERATURE'' ''temperature'' (1 / 10)))"

record DatabricksConfig =
  workspace_url :: string
  token :: string
  cluster_id :: string
  model_serving_endpoint :: string
  vector_search_endpoint :: string

definition DatabricksConfig_new :: "env \<Rightarrow> error + DatabricksConfig" where
  "DatabricksConfig_new env =
     raise_validation ''DatabricksConfig''
       (with_field (with_field (with_field (with_field (with_field
          (Inr (\<lambda>a b c d e. \<lparr>workspace_url = a, token = b, cluster_id = c,
                               model_serving_endpoint = d, vector_search_endpoint = e\<rparr>))
          (str_field env ''DATABRICKS_WORKSPACE_URL'' ''workspace_url'' None))
          (str_field env ''DATABRICKS_TOKEN'' ''token'' None))
          (str_field env ''DATABRICKS_CLUSTER_ID'' ''cluster_id'' None))
          (str_field env ''DATABRICKS_MODEL_ENDPOINT'' ''model_serving_endpoint'' None))
          (str_field env ''DATABRICKS_VECTOR_ENDPOINT'' ''vector_search_endpoint'' None))"

record OpenSearchConfig =
  endpoint :: string
  opensearch_region :: string
  index_name :: string
  use_ssl :: bool
  verify_certs :: bool

definition OpenSearchConfig_new :: "coercions \<Rightarrow> env \<Rightarrow> error + OpenSearchConfig" where
  "OpenSearchConfig_new P env =
     raise_validation ''OpenSearchConfig''
       (with_field (with_field (with_field (with_field (with_field
          (Inr (\<lambda>a b c d e. \<lparr>endpoint = a, opensearch_region = b, index_name = c,
                               use_ssl = d, verify_certs = e\<rparr>))
          (str_field env ''OPENSEARCH_ENDPOINT'' ''endpoint'' None))
          (str_field env ''OPENSEARCH_REGION'' ''region'' (Some ''us-east-1'')))
          (str_field env ''OPENSEARCH_INDEX'' ''index_name'' (Some ''clinical-documents'')))
          (bool_field P env ''OPENSEARCH_USE_SSL'' ''use_ssl'' True))
          (bool_field P env ''OPENSEARCH_VERIFY_CERTS'' ''verify_certs'' True))"

record S3Config =
  bucket_name :: string
  s3_region :: string
  csr_prefix :: string
  tmf_prefix :: string
  processed_prefix :: string

definition S3Config_new :: "env \<Rightarrow> error + S3Config" where
  "S3Config_new env =
     raise_validation ''S3Config''
       (with_field (with_field (with_field (with_field (with_field
          (Inr (\<lambda>a b c d e. \<lparr>bucket_name = a, s3_region = b, csr_prefix = c,
                               tmf_prefix = d, processed_prefix = e\<rparr>))
          (str_field env ''S3_BUCKET_NAME'' ''bucket_name'' None))
          (str_field env ''S3_REGION'' ''region'' (Some ''us-east-1'')))
          (str_field env ''S3_CSR_PREFIX'' ''csr_prefix'' (Some ''csr/'')))
          (str_field env ''S3_TMF_PREFIX'' ''tmf_prefix'' (Some ''tmf/'')))
          (str_field env ''S3_PROCESSED_PREFIX'' ''processed_prefix'' (Some ''processed/'')))"

record DeltaConfig =
  catalog_name :: string
  schema_name :: string
  documents_table :: string
  chunks_table :: string
  audit_table :: string

definition DeltaConfig_new :: "env \<Rightarrow> error + DeltaConfig" where
  "DeltaConfig_new env =
     raise_validation ''DeltaConfig''
       (with_field (with_field (with_field (with_field (with_field
          (Inr (\<lambda>a b c d e. \<lparr>catalog_name = a, schema_name = b, documents_table = c,
                               chunks_table = d, audit_table = e\<rparr>))
          (str_field env ''DELTA_CATALOG'' ''catalog_name'' (Some ''clinical_portal'')))
          (str_field env ''DELTA_SCHEMA'' ''schema_name'' (Some ''main'')))
          (str_field env ''DELTA_DOCUMENTS_TABLE'' ''documents_table'' (Some ''documents'')))
          (str_field env ''DELTA_CHUNKS_TABLE'' ''chunks_table'' (Some ''document_chunks'')))
          (str_field env ''DELTA_AUDIT_TABLE'' ''audit_table'' (Some ''audit_log'')))"

record RedisConfig =
  host :: string
  port :: int
  db :: int
  password :: "string option"
  ttl_seconds :: int

definition RedisConfig_new :: "coercions \<Rightarrow> env \<Rightarrow> error + RedisConfig" where
  "RedisConfig_new P env =
     raise_validation ''RedisConfig''
       (with_field (with_field (with_field (with_field (with_field
          (Inr (\<lambda>a b c d e. \<lparr>host = a, port = b, db = c, password = d, ttl_seconds = e\<rparr>))
          (str_field env ''REDIS_HOST'' ''host'' (Some ''localhost'')))
          (int_field P env ''REDIS_PORT'' ''port'' 6379))
          (int_field P env ''REDIS_DB'' ''db'' 0))
          (Inr (env ''REDIS_PASSWORD'')))
          (int_field P env ''REDIS_TTL_SECONDS'' ''ttl_seconds'' 3600))"

record SecurityConfig =
  secret_key :: string
  algorithm :: string
  access_token_expire_minutes :: int
  refresh_token_expire_days :: int
  cors_origins :: "string list"
  cors_allow_credentials :: bool

text \<open>
  \<^verbatim>\<open>cors_origins\<close> is a list: its environment variable is decoded before validation
  starts, and a value that is not JSON raises a settings error at once; a value that is
  JSON but not a list is an error of the field, collected with the others.
\<close>

definition SecurityConfig_fields ::
  "coercions \<Rightarrow> env \<Rightarrow> string list field \<Rightarrow> SecurityConfig field" where
  "SecurityConfig_fields P env origins =
     with_field (with_field (with_field (with_field (with_field (with_field
       (Inr (\<lambda>a b c d e f. \<lparr>secret_key = a, algorithm = b,
                              access_token_expire_minutes = c,
                              refresh_token_expire_days = d, cors_origins = e,
                              cors_allow_credentials = f\<rparr>))
       (str_field env ''SECRET_KEY'' ''secret_key'' None))
       (str_field env ''JWT_ALGORITHM'' ''algorithm'' (Some ''HS256'')))
       (int_field P env ''ACCESS_TOKEN_EXPIRE_MINUTES'' ''access_token_expire_minutes'' 30))
       (int_field P env ''REFRESH_TOKEN_EXPIRE_DAYS'' ''refresh_token_expire_days'' 7))
       origins)
       (bool_field P env ''CORS_ALLOW_CREDENTIALS'' ''cors_allow_credentials'' True)"

definition SecurityConfig_new :: "coercions \<Rightarrow> env \<Rightarrow> error + SecurityConfig" where
  "SecurityConfig_new P env =
     (case env ''CORS_ORIGINS'' of
        None \<Rightarrow>
          raise_validation ''SecurityConfig''
            (SecurityConfig_fields P env (Inr [''http://localhost:3000'']))
      | Some s \<Rightarrow>
          (case to_list P s of
             NotJSON \<Rightarrow> Inl (SettingsError ''CORS_ORIGINS'')
           | NotList \<Rightarrow>
               raise_validation ''SecurityConfig''
                 (SecurityConfig_fields P env
                    (Inl [([''cors_origins''], ''value is not a valid list'')]))
           | JSONList origins \<Rightarrow>
               raise_validation ''SecurityConfig'' (SecurityConfig_fields P env (Inr origins))))"

section \<open>config.py: the system configuration\<close>

text \<open>
  The process keeps a log of the configuration objects it has constructed, one class name
  per object, in the order of construction. An object is identified by its position in
  the log. A constructor that raises constructs nothing.
\<close>

type_synonym log = "string list"

fun construct :: "string \<Rightarrow> error + 'a \<Rightarrow> log \<Rightarrow> (error + 'a) \<times> log" where
  "construct cls (Inr x) l = (Inr x, l @ [cls])"
| "construct cls (Inl e) l = (Inl e, l)"

text \<open>
  What the settings sources of \<^verbatim>\<open>SystemConfig\<close> hold for one of its seven sub-config
  fields. pydantic fills every field of a settings class from its sources, under the
  field's own name (the variable \<^verbatim>\<open>BEDROCK\<close> for the field \<^verbatim>\<open>bedrock\<close>), and the value
  of a sub-config field is JSON. The value is absent, or it cannot be decoded, or it
  decodes to data; the class is called on such data to build a new object when the type
  of the field is validated, and the data are given here by the result of that call.
\<close>

datatype 'c supplied = Absent | Undecodable | Decoded "error + 'c"

text \<open>
  The value of a sub-config field before its type is validated: an object of the class,
  which is accepted as it is, or data of the sources.
\<close>

datatype 'c field_value = Object 'c | Data "error + 'c"

fun raw_value :: "'c supplied \<Rightarrow> 'c field_value option" where
  "raw_value Absent = None"
| "raw_value Undecodable = None"
| "raw_value (Decoded r) = Some (Data r)"

text \<open>
  The three validators. They run before the type of the field is validated
  (\<^verbatim>\<open>pre=True\<close>) and also when the field has no value (\<^verbatim>\<open>always=True\<close>). \<open>v\<close> is the
  value of the field (\<open>None\<close> when there is none), \<open>vals\<close> the dictionary of the fields
  validated before, which holds a provider selector only if the selector itself was
  valid. \<^verbatim>\<open>X() if v is None else v\<close> constructs a sub-config from the process environment
  only when the field has no value.
\<close>

definition validate_bedrock_config ::
  "coercions \<Rightarrow> env \<Rightarrow> BedrockConfig field_value option \<Rightarrow> (string \<rightharpoonup> string) \<Rightarrow> log
   \<Rightarrow> (error + BedrockConfig field_value option) \<times> log" where
  "validate_bedrock_config P env v vals l =
     (if vals ''ai_provider'' = Some ''bedrock'' then
        (case v of
           None \<Rightarrow> (case construct ''BedrockConfig'' (BedrockConfig_new P env) l of
                      (r, l') \<Rightarrow> (map_sum id (\<lambda>c. Some (Object c)) r, l'))
         | Some x \<Rightarrow> (Inr v, l))
      else (Inr v, l))"

definition validate_databricks_config ::
  "env \<Rightarrow> DatabricksConfig field_value option \<Rightarrow> (string \<rightharpoonup> string) \<Rightarrow> log
   \<Rightarrow> (error + DatabricksConfig field_value option) \<times> log" where
  "validate_databricks_config env v vals l =
     (let ai_provider = vals ''ai_provider'';
          search_provider = vals ''search_provider'';
          vector_provider = vals ''vector_provider''
      in if ai_provider = Some ''databricks'' \<or> search_provider = Some ''databricks_vector''
            \<or> vector_provider = Some ''databricks_vector'' then
           (case v of
              None \<Rightarrow> (case construct ''DatabricksConfig'' (DatabricksConfig_new env) l of
                         (r, l') \<Rightarrow> (map_sum id (\<lambda>c. Some (Object c)) r, l'))
            | Some x \<Rightarrow> (Inr v, l))
         else (Inr v, l))"

definition validate_opensearch_config ::
  "coercions \<Rightarrow> env \<Rightarrow> OpenSearchConfig field_value option \<Rightarrow> (string \<rightharpoonup> string) \<Rightarrow> log
   \<Rightarrow> (error + OpenSearchConfig field_value option) \<times> log" where
  "validate_opensearch_config P env v vals l =
     (let search_provider = vals ''search_provider'';
          vector_provider = vals ''vector_provider''
      in if search_provider = Some ''opensearch'' \<or> vector_provider = Some ''opensearch'' then
           (case v of
              None \<Rightarrow> (case construct ''OpenSearchConfig'' (OpenSearchConfig_new P env) l of
                         (r, l') \<Rightarrow> (map_sum id (\<lambda>c. Some (Object c)) r, l'))
            | Some x \<Rightarrow> (Inr v, l))
         else (Inr v, l))"

text \<open>
  The validation of the type \<^verbatim>\<open>Optional[X]\<close> of a provider field, after its validator: an
  exception of the validator is the error of the field, \<^verbatim>\<open>None\<close> and an object of the
  class are accepted, and from data a new object of the class is built, whose errors are
  errors of the field.
\<close>

fun type_checked ::
  "string \<Rightarrow> string \<Rightarrow> error + 'c field_value option \<Rightarrow> log \<Rightarrow> 'c option field \<times> log" where
  "type_checked cls name (Inl e) l = (Inl (errors_at name e), l)"
| "type_checked cls name (Inr None) l = (Inr None, l)"
| "type_checked cls name (Inr (Some (Object c))) l = (Inr (Some c), l)"
| "type_checked cls name (Inr (Some (Data (Inr c)))) l = (Inr (Some c), l @ [cls])"
| "type_checked cls name (Inr (Some (Data (Inl e)))) l = (Inl (errors_at name e), l)"

text \<open>
  An infrastructure field (\<^verbatim>\<open>Field(default_factory=X)\<close>). From data of the sources a new
  object is built, whose errors are errors of the field. Without a value the factory is
  called, which reads the process environment; the call is made outside the collection
  of errors, so that an exception of the factory leaves \<^verbatim>\<open>SystemConfig()\<close> at once. The
  result is that exception, or else the validation result of the field.
\<close>

fun infrastructure_field ::
  "string \<Rightarrow> string \<Rightarrow> 'c supplied \<Rightarrow> error + 'c \<Rightarrow> log \<Rightarrow> (error + 'c field) \<times> log" where
  "infrastructure_field cls name (Decoded (Inr c)) factory l = (Inr (Inr c), l @ [cls])"
| "infrastructure_field cls name (Decoded (Inl e)) factory l = (Inr (Inl (errors_at name e)), l)"
| "infrastructure_field cls name Absent (Inr c) l = (Inr (Inr c), l @ [cls])"
| "infrastructure_field cls name Absent (Inl e) l = (Inl e, l)"
| "infrastructure_field cls name Undecodable factory l = (Inl (SettingsError name), l)"

fun values_of :: "(string \<times> string field) list \<Rightarrow> (string \<rightharpoonup> string)" where
  "values_of [] = Map.empty"
| "values_of ((k, Inr v) # kvs) = (values_of kvs)(k \<mapsto> v)"
| "values_of ((k, Inl es) # kvs) = values_of kvs"

record SystemConfig =
  environment :: string
  debug :: bool
  log_level :: string
  ai_provider :: string
  search_provider :: string
  vector_provider :: string
  api_v1_prefix :: string
  max_request_size :: int
  rate_limit_per_minute :: int
  search_timeout_seconds :: int
  ai_timeout_seconds :: int
  document_cache_ttl :: int
  audit_retention_days :: int
  enable_data_masking :: bool
  require_mfa :: bool
  bedrock :: "BedrockConfig option"
  databricks :: "DatabricksConfig option"
  opensearch :: "OpenSearchConfig option"
  s3 :: S3Config
  delta :: DeltaConfig
  redis :: RedisConfig
  security :: SecurityConfig

text \<open>
  The settings sources of a call \<^verbatim>\<open>SystemConfig()\<close>: the process environment, the file
  \<^verbatim>\<open>.env\<close> (\<^verbatim>\<open>env_file = ".env"\<close>, read by \<^verbatim>\<open>SystemConfig\<close> alone: the sub-config classes
  declare no such file and read the process environment only), and what the two hold for
  the seven sub-config fields. A variable of the process environment takes precedence
  over the same variable of the file.
\<close>

record source =
  environ :: env
  dotenv :: env
  supplied_bedrock :: "BedrockConfig supplied"
  supplied_databricks :: "DatabricksConfig supplied"
  supplied_opensearch :: "OpenSearchConfig supplied"
  supplied_s3 :: "S3Config supplied"
  supplied_delta :: "DeltaConfig supplied"
  supplied_redis :: "RedisConfig supplied"
  supplied_security :: "SecurityConfig supplied"

text \<open>
  The sources are read before any field is validated, in the order of the fields: a
  sub-config variable that cannot be decoded raises a settings error there.
\<close>

fun undecodable :: "string \<Rightarrow> 'c supplied \<Rightarrow> error option" where
  "undecodable name Undecodable = Some (SettingsError name)"
| "undecodable name Absent = None"
| "undecodable name (Decoded r) = None"

fun first_error :: "error option list \<Rightarrow> error option" where
  "first_error [] = None"
| "first_error (Some e # es) = Some e"
| "first_error (None # es) = first_error es"

definition sources_error :: "source \<Rightarrow> error option" where
  "sources_error src =
     first_error
       [undecodable ''bedrock'' (supplied_bedrock src),
        undecodable ''databricks'' (supplied_databricks src),
        undecodable ''opensearch'' (supplied_opensearch src),
        undecodable ''s3'' (supplied_s3 src), undecodable ''delta'' (supplied_delta src),
        undecodable ''redis'' (supplied_redis src),
        undecodable ''security'' (supplied_security src)]"

text \<open>
  The three provider selectors, and the dictionary \<^verbatim>\<open>values\<close> that the validators of the
  provider fields receive: it holds each selector that passed its own validation. (It
  holds the other fields declared before as well; the validators read these three only.)
\<close>

definition ai_provider_field :: "env \<Rightarrow> string field" where
  "ai_provider_field env =
     literal_field env ''AI_PROVIDER'' ''ai_provider'' [''bedrock'', ''databricks''] ''bedrock''"

definition search_provider_field :: "env \<Rightarrow> string field" where
  "search_provider_field env =
     literal_field env ''SEARCH_PROVIDER'' ''search_provider''
       [''opensearch'', ''databricks_vector''] ''opensearch''"

definition vector_provider_field :: "env \<Rightarrow> string field" where
  "vector_provider_field env =
     literal_field env ''VECTOR_PROVIDER'' ''vector_provider''
       [''opensearch'', ''databricks_vector''] ''opensearch''"

definition selector_values :: "env \<Rightarrow> (string \<rightharpoonup> string)" where
  "selector_values env =
     values_of [(''ai_provider'', ai_provider_field env),
                (''search_provider'', search_provider_field env),
                (''vector_provider'', vector_provider_field env)]"

text \<open>
  The collection of the errors of all fields of \<^verbatim>\<open>SystemConfig\<close>, given the validation
  results of the seven sub-config fields; \<open>env\<close> is the environment that \<^verbatim>\<open>SystemConfig\<close>
  reads its own variables from.
\<close>

definition SystemConfig_fields ::
  "coercions \<Rightarrow> env \<Rightarrow> BedrockConfig option field \<Rightarrow> DatabricksConfig option field
   \<Rightarrow> OpenSearchConfig option field \<Rightarrow> S3Config field \<Rightarrow> DeltaConfig field
   \<Rightarrow> RedisConfig field \<Rightarrow> SecurityConfig field \<Rightarrow> SystemConfig field" where
  "SystemConfig_fields P env b d os s3f deltaf redisf securityf =
     (with_field (with_field (with_field (with_field (with_field (with_field
      (with_field (with_field (with_field (with_field (with_field (with_field
      (with_field (with_field (with_field (with_field (with_field (with_field
      (with_field (with_field (with_field (with_field
        (Inr (\<lambda>f1 f2 f3 f4 f5 f6 f7 f8 f9 f10 f11 f12 f13 f14 f15 f16 f17 f18 f19 f20 f21 f22.
           \<lparr>environment = f1, debug = f2, log_level = f3, ai_provider = f4,
            search_provider = f5, vector_provider = f6, api_v1_prefix = f7,
            max_request_size = f8, rate_limit_per_minute = f9,
            search_timeout_seconds = f10, ai_timeout_seconds = f11,
            document_cache_ttl = f12, audit_retention_days = f13,
            enable_data_masking = f14, require_mfa = f15, bedrock = f16,
            databricks = f17, opensearch = f18, s3 = f19, delta = f20,
            redis = f21, security = f22\<rparr>))
        (literal_field env ''ENVIRONMENT'' ''environment''
           [''development'', ''staging'', ''production''] ''development''))
        (bool_field P env ''DEBUG'' ''debug'' False))
        (str_field env ''LOG_LEVEL'' ''log_level'' (Some ''INFO'')))
        (ai_provider_field env)) (search_provider_field env)) (vector_provider_field env))
        (str_field env ''API_V1_PREFIX'' ''api_v1_prefix'' (Some ''/api/v1'')))
        (int_field P env ''MAX_REQUEST_SIZE'' ''max_request_size'' (50 * 1024 * 1024)))
        (int_field P env ''RATE_LIMIT_PER_MINUTE'' ''rate_limit_per_minute'' 100))
        (int_field P env ''SEARCH_TIMEOUT_SECONDS'' ''search_timeout_seconds'' 30))
        (int_field P env ''AI_TIMEOUT_SECONDS'' ''ai_timeout_seconds'' 60))
        (int_field P env ''DOCUMENT_CACHE_TTL'' ''document_cache_ttl'' 3600))
        (int_field P env ''AUDIT_RETENTION_DAYS'' ''audit_retention_days'' 2555))
        (bool_field P env ''ENABLE_DATA_MASKING'' ''enable_data_masking'' True))
        (bool_field P env ''REQUIRE_MFA'' ''require_mfa'' True))
        b) d) os) s3f) deltaf) redisf) securityf)"

text \<open>
  \<^verbatim>\<open>SystemConfig()\<close>. The sources are read first. Then the fields are validated in the
  order of declaration: the scalar fields from the file and the process environment, the
  three provider fields by their validator and their type, the four infrastructure fields
  from their data or their factory. The sub-config classes called on the way read the
  process environment only. The errors of the fields are collected, and the object is
  built when there is none.
\<close>

definition SystemConfig_new ::
  "coercions \<Rightarrow> source \<Rightarrow> log \<Rightarrow> (error + SystemConfig) \<times> log" where
  "SystemConfig_new P src l0 =
     (case sources_error src of
        Some e \<Rightarrow> (Inl e, l0)
      | None \<Rightarrow>
     (let env = environ src;
          own = dotenv src ++ environ src;
          vals = selector_values own
      in case validate_bedrock_config P env (raw_value (supplied_bedrock src)) vals l0 of
           (vb, l1) \<Rightarrow>
        (case type_checked ''BedrockConfig'' ''bedrock'' vb l1 of (b, l2) \<Rightarrow>
        (case validate_databricks_config env (raw_value (supplied_databricks src)) vals l2 of
           (vd, l3) \<Rightarrow>
        (case type_checked ''DatabricksConfig'' ''databricks'' vd l3 of (d, l4) \<Rightarrow>
        (case validate_opensearch_config P env (raw_value (supplied_opensearch src)) vals l4 of
           (vo, l5) \<Rightarrow>
        (case type_checked ''OpenSearchConfig'' ''opensearch'' vo l5 of (os, l6) \<Rightarrow>
        (case infrastructure_field ''S3Config'' ''s3'' (supplied_s3 src) (S3Config_new env) l6 of
           (Inl e, l7) \<Rightarrow> (Inl e, l7)
         | (Inr s3f, l7) \<Rightarrow>
        (case infrastructure_field ''DeltaConfig'' ''delta'' (supplied_delta src)
                (DeltaConfig_new env) l7 of
           (Inl e, l8) \<Rightarrow> (Inl e, l8)
         | (Inr deltaf, l8) \<Rightarrow>
        (case infrastructure_field ''RedisConfig'' ''redis'' (supplied_redis src)
                (RedisConfig_new P env) l8 of
           (Inl e, l9) \<Rightarrow> (Inl e, l9)
         | (Inr redisf, l9) \<Rightarrow>
        (case infrastructure_field ''SecurityConfig'' ''security'' (supplied_security src)
                (SecurityConfig_new P env) l9 of
           (Inl e, l10) \<Rightarrow> (Inl e, l10)
         | (Inr securityf, l10) \<Rightarrow>
         construct ''SystemConfig''
           (raise_validation ''SystemConfig''
              (SystemConfig_fields P own b d os s3f deltaf redisf securityf))
           l10)))))))))))"

text \<open>
  \<^verbatim>\<open>get_settings\<close> is wrapped in \<^verbatim>\<open>lru_cache()\<close> and takes no argument, so the cache has
  one slot: a call that finds the slot filled returns the stored object; otherwise it
  calls \<^verbatim>\<open>SystemConfig()\<close>, and stores the object if the call returns one. An exception
  is not stored. The state of the process is the slot and the log of the constructed
  objects; the result of a call is a reference (the position of the object in the log)
  together with the object.
\<close>

record process =
  settings_cache :: "(nat \<times> SystemConfig) option"
  constructed :: log

definition fresh :: process where
  "fresh = \<lparr>settings_cache = None, constructed = []\<rparr>"

definition get_settings ::
  "coercions \<Rightarrow> source \<Rightarrow> process \<Rightarrow> (error + nat \<times> SystemConfig) \<times> process" where
  "get_settings P src s =
     (case settings_cache s of
        Some hit \<Rightarrow> (Inr hit, s)
      | None \<Rightarrow>
          (case SystemConfig_new P src (constructed s) of
             (Inl e, l) \<Rightarrow> (Inl e, s\<lparr>constructed := l\<rparr>)
           | (Inr cfg, l) \<Rightarrow>
               (Inr (length l - 1, cfg),
                \<lparr>settings_cache = Some (length l - 1, cfg), constructed = l\<rparr>)))"

text \<open>A sequence of calls, each with the sources as they are at the time of the call.\<close>

fun get_settings_calls ::
  "coercions \<Rightarrow> source list \<Rightarrow> process \<Rightarrow> (error + nat \<times> SystemConfig) list \<times> process" where
  "get_settings_calls P [] s = ([], s)"
| "get_settings_calls P (src # srcs) s =
     (case get_settings P src s of
        (r, s') \<Rightarrow> (case get_settings_calls P srcs s' of (rs, s'') \<Rightarrow> (r # rs, s'')))"

text \<open>
  The configuration object that a call of \<^verbatim>\<open>get_settings\<close> returned, if it returned one.
\<close>

definition snapshot :: "(error + nat \<times> SystemConfig) \<times> process \<Rightarrow> SystemConfig option" where
  "snapshot res = (case fst res of Inr (r, cfg) \<Rightarrow> Some cfg | Inl e \<Rightarrow> None)"

text \<open>
  A validation error names a field of a backend family when one of its entries is located
  at that field of that family.
\<close>

fun names_field :: "error \<Rightarrow> string \<Rightarrow> string \<Rightarrow> bool" where
  "names_field (ValidationError model es) family fld = ([family, fld] \<in> set (map fst es))"
| "names_field (ValueError msg) family fld = False"
| "names_field (SettingsError var) family fld = False"
| "names_field (Raised msg) family fld = False"

text \<open>
  The exception of the first factory, in the order of the fields, that is called for an
  infrastructure field without a value and raises.
\<close>

fun default_error :: "'c supplied \<Rightarrow> error + 'c \<Rightarrow> error option" where
  "default_error Absent (Inl e) = Some e"
| "default_error Absent (Inr c) = None"
| "default_error Undecodable factory = None"
| "default_error (Decoded r) factory = None"

definition factory_error :: "coercions \<Rightarrow> source \<Rightarrow> error option" where
  "factory_error P src =
     first_error
       [default_error (supplied_s3 src) (S3Config_new (environ src)),
        default_error (supplied_delta src) (DeltaConfig_new (environ src)),
        default_error (supplied_redis src) (RedisConfig_new P (environ src)),
        default_error (supplied_security src) (SecurityConfig_new P (environ src))]"

text \<open>The fields without default of the two provider sub-configs that have any.\<close>

definition databricks_required :: "(string \<times> string) list" where
  "databricks_required =
     [(''DATABRICKS_WORKSPACE_URL'', ''workspace_url''), (''DATABRICKS_TOKEN'', ''token''),
      (''DATABRICKS_CLUSTER_ID'', ''cluster_id''),
      (''DATABRICKS_MODEL_ENDPOINT'', ''model_serving_endpoint''),
      (''DATABRICKS_VECTOR_ENDPOINT'', ''vector_search_endpoint'')]"

definition opensearch_required :: "(string \<times> string) list" where
  "opensearch_required = [(''OPENSEARCH_ENDPOINT'', ''endpoint'')]"

text \<open>Whether the validation of a field reports a given entry.\<close>

fun reports :: "'a field \<Rightarrow> field_error \<Rightarrow> bool" where
  "reports (Inl es) e = (e \<in> set es)"
| "reports (Inr x) e = False"

section \<open>A sample deployment\<close>

text \<open>
  Concrete inputs on which the definitions are evaluated: conversions that accept the
  decimal numbers and booleans used below, and an environment that sets the three
  variables without default that the default selectors need.
\<close>

definition sample_coercions :: coercions where
  "sample_coercions =
     \<lparr>to_int = (\<lambda>s. if s = ''8000'' then Some 8000 else None),
      to_float = (\<lambda>s. None),
      to_bool = (\<lambda>s. if s = ''true'' then Some True else if s = ''false'' then Some False
                       else None),
      to_list = (\<lambda>s. NotJSON)\<rparr>"

definition sample_env :: env where
  "sample_env =
     [''S3_BUCKET_NAME'' \<mapsto> ''clinical-docs'', ''SECRET_KEY'' \<mapsto> ''k'',
      ''OPENSEARCH_ENDPOINT'' \<mapsto> ''https://search.example'']"

definition sample_source :: source where
  "sample_source =
     \<lparr>environ = sample_env, dotenv = Map.empty, supplied_bedrock = Absent,
      supplied_databricks = Absent, supplied_opensearch = Absent, supplied_s3 = Absent,
      supplied_delta = Absent, supplied_redis = Absent, supplied_security = Absent\<rparr>"

text \<open>The configuration that the sample deployment resolves to.\<close>

definition sample_config :: SystemConfig where
  "sample_config =
     \<lparr>environment = ''development'', debug = False, log_level = ''INFO'',
      ai_provider = ''bedrock'', search_provider = ''opensearch'',
      vector_provider = ''opensearch'', api_v1_prefix = ''/api/v1'',
      max_request_size = 52428800, rate_limit_per_minute = 100,
      search_timeout_seconds = 30, ai_timeout_seconds = 60, document_cache_ttl = 3600,
      audit_retention_days = 2555, enable_data_masking = True, require_mfa = True,
      bedrock = Some \<lparr>bedrock_region = ''us-east-1'',
                       claude_model_id = ''anthropic.claude-3-sonnet-20240229-v1:0'',
                       titan_model_id = ''amazon.titan-text-express-v1'',
                       max_tokens = 4000, temperature = 1 / 10\<rparr>,
      databricks = None,
      opensearch = Some \<lparr>endpoint = ''https://search.example'',
                          opensearch_region = ''us-east-1'',
                          index_name = ''clinical-documents'', use_ssl = True,
                          verify_certs = True\<rparr>,
      s3 = \<lparr>bucket_name = ''clinical-docs'', s3_region = ''us-east-1'', csr_prefix = ''csr/'',
            tmf_prefix = ''tmf/'', processed_prefix = ''processed/''\<rparr>,
      delta = \<lparr>catalog_name = ''clinical_portal'', schema_name = ''main'',
               documents_table = ''documents'', chunks_table = ''document_chunks'',
               audit_table = ''audit_log''\<rparr>,
      redis = \<lparr>host = ''localhost'', port = 6379, db = 0, password = None,
               ttl_seconds = 3600\<rparr>,
      security = \<lparr>secret_key = ''k'', algorithm = ''HS256'', access_token_expire_minutes = 30,
                  refresh_token_expire_days = 7, cors_origins = [''http://localhost:3000''],
                  cors_allow_credentials = True\<rparr>\<rparr>"

text \<open>
  A deployment that selects Databricks for the AI capability, sets the five Databricks
  variables, and whose sources hold data for the Bedrock sub-config all the same, from
  which a Bedrock sub-config can be built.
\<close>

definition sample_bedrock :: BedrockConfig where
  "sample_bedrock =
     \<lparr>bedrock_region = ''eu-west-1'', claude_model_id = ''claude'', titan_model_id = ''titan'',
      max_tokens = 100, temperature = 0\<rparr>"

definition databricks_env :: env where
  "databricks_env =
     sample_env(''AI_PROVIDER'' \<mapsto> ''databricks'',
       ''DATABRICKS_WORKSPACE_URL'' \<mapsto> ''https://dbx.example'', ''DATABRICKS_TOKEN'' \<mapsto> ''t'',
       ''DATABRICKS_CLUSTER_ID'' \<mapsto> ''c'', ''DATABRICKS_MODEL_ENDPOINT'' \<mapsto> ''m'',
       ''DATABRICKS_VECTOR_ENDPOINT'' \<mapsto> ''v'')"

definition override_source :: source where
  "override_source =
     sample_source\<lparr>environ := databricks_env, supplied_bedrock := Decoded (Inr sample_bedrock)\<rparr>"

text \<open>A deployment that selects Databricks and sets no other variable.\<close>

definition bare_databricks_source :: source where
  "bare_databricks_source = sample_source\<lparr>environ := [''AI_PROVIDER'' \<mapsto> ''databricks'']\<rparr>"

text \<open>The sample deployment with Databricks selected and its token not set.\<close>

definition missing_token_source :: source where
  "missing_token_source = sample_source\<lparr>environ := databricks_env(''DATABRICKS_TOKEN'' := None)\<rparr>"

section \<open>Properties of the provider factory\<close>

lemma registry_register_same:
  "registry c (register c name k f) = (registry c f)(name \<mapsto> k)"
  by (cases c)
     (simp_all add: register_search_provider_def register_vector_provider_def
        register_ai_provider_def)

lemma registry_register_other:
  "c \<noteq> c' \<Longrightarrow> registry c' (register c name k f) = registry c' f"
  by (cases c; cases c')
     (simp_all add: register_search_provider_def register_vector_provider_def
        register_ai_provider_def)

lemma create_registry:
  "create c f name =
     (case registry c f name of
        None \<Rightarrow> Inl (ValueError (''Unknown '' @ capability_word c @ '' provider: '' @ name))
      | Some k \<Rightarrow> k ())"
  by (cases c)
     (simp_all add: create_search_provider_def create_vector_provider_def
        create_ai_provider_def split: option.split)

text \<open>
  C7. Registering a second class under a (capability, name) pair that is already taken
  raises nothing and replaces the entry: the registry then holds the second class under
  that name, \<open>create\<close> for the pair calls the second class, and the factory is the one
  that a single registration of the second class would have produced.
\<close>

theorem C7_last_registration_wins:
  "registry c (register c name k2 (register c name k1 f)) name = Some k2
   \<and> create c (register c name k2 (register c name k1 f)) name = k2 ()
   \<and> register c name k2 (register c name k1 f) = register c name k2 f"
  by (cases c)
     (simp_all add: register_search_provider_def register_vector_provider_def
        register_ai_provider_def create_search_provider_def create_vector_provider_def
        create_ai_provider_def)

text \<open>
  C3 (as amended). For a (capability, name) pair that has no registered class, \<open>create\<close>
  raises a \<^verbatim>\<open>ValueError\<close> and returns no instance. Its message is
  \<^verbatim>\<open>Unknown <capability> provider: <name>\<close>: it names the capability and ends with the
  requested name, and holds nothing else.
\<close>

theorem C3_unknown_provider_error:
  "registry c f name = None \<Longrightarrow>
     create c f name = Inl (ValueError (''Unknown '' @ capability_word c @ '' provider: '' @ name))
     \<and> (\<forall>i. create c f name \<noteq> Inr i)
     \<and> sublist (capability_word c) (''Unknown '' @ capability_word c @ '' provider: '' @ name)
     \<and> suffix name (''Unknown '' @ capability_word c @ '' provider: '' @ name)"
proof -
  assume unregistered: "registry c f name = None"
  have raised:
    "create c f name = Inl (ValueError (''Unknown '' @ capability_word c @ '' provider: '' @ name))"
    using unregistered by (simp add: create_registry)
  have capability_named:
    "sublist (capability_word c) (''Unknown '' @ capability_word c @ '' provider: '' @ name)"
    by (rule sublist_appendI)
  have name_last: "suffix name (''Unknown '' @ (capability_word c @ '' provider: '') @ name)"
    by (rule suffixI) simp
  show ?thesis using raised capability_named name_last by simp
qed

theorem C3_unknown_provider_error_witness:
  "registry Search (register Search ''opensearch'' (\<lambda>_. Inr (0::nat)) empty_factory) ''solr'' = None
   \<and> create Search (register Search ''opensearch'' (\<lambda>_. Inr (0::nat)) empty_factory) ''solr''
       = Inl (ValueError ''Unknown search provider: solr'')"
  using C3_unknown_provider_error
    [of Search "register Search ''opensearch'' (\<lambda>_. Inr (0::nat)) empty_factory" "''solr''"]
  by (simp add: register_search_provider_def empty_factory_def)

text \<open>
  C3 as stated fails: with \<^verbatim>\<open>opensearch\<close> registered as a search provider, asking for the
  search provider \<^verbatim>\<open>solr\<close> raises an error whose message does not contain the registered
  name.
\<close>

theorem C3_registered_names_counterexample:
  "registry Search (register Search ''opensearch'' (\<lambda>_. Inr (0::nat)) empty_factory) ''solr'' = None
   \<and> registry Search (register Search ''opensearch'' (\<lambda>_. Inr (0::nat)) empty_factory) ''opensearch''
       \<noteq> None
   \<and> create Search (register Search ''opensearch'' (\<lambda>_. Inr (0::nat)) empty_factory) ''solr''
       = Inl (ValueError ''Unknown search provider: solr'')
   \<and> \<not> sublist ''opensearch'' ''Unknown search provider: solr''"
  by (simp add: register_search_provider_def empty_factory_def create_search_provider_def
        sublist_Cons_right)

text \<open>
  C10. Registering a class for one capability leaves the registries of the other two
  capabilities as they were, and \<open>create\<close> for a capability depends on the registry of
  that capability alone: two factories with the same registry for it give the same
  result. So a name registered for one capability only is still unknown to \<open>create\<close> for
  another capability.
\<close>

theorem C10_registries_independent:
  "c \<noteq> c' \<Longrightarrow>
     registry c' (register c name k f) = registry c' f
     \<and> create c' (register c name k f) n = create c' f n
     \<and> (registry c' f name = None \<longrightarrow>
          create c' (register c name k f) name
            = Inl (ValueError (''Unknown '' @ capability_word c' @ '' provider: '' @ name)))
     \<and> (registry c' g = registry c' f \<longrightarrow> create c' g n = create c' f n)"
  by (simp add: create_registry registry_register_other)

theorem C10_registries_independent_witness:
  "Search \<noteq> Vector
   \<and> registry Vector (empty_factory :: nat ProviderFactory) ''opensearch'' = None
   \<and> registry Vector (register Search ''opensearch'' (\<lambda>_. Inr (0::nat)) empty_factory)
       = registry Vector empty_factory
   \<and> create Search (register Search ''opensearch'' (\<lambda>_. Inr (0::nat)) empty_factory) ''opensearch''
       = Inr 0
   \<and> create Vector (register Search ''opensearch'' (\<lambda>_. Inr (0::nat)) empty_factory) ''opensearch''
       = Inl (ValueError ''Unknown vector provider: opensearch'')"
  using C10_registries_independent
    [of Search Vector "''opensearch''" "\<lambda>_. Inr (0::nat)" empty_factory "''opensearch''"
        empty_factory]
  by (simp add: empty_factory_def register_search_provider_def create_search_provider_def
        create_vector_provider_def)

section \<open>Properties of the data contracts\<close>

text \<open>
  C4 (as amended). Constructing a \<^verbatim>\<open>Citation\<close> checks neither the provenance chain nor
  the confidence score: every chain, the empty one included, and every score are accepted
  and stored as given, so a score is never clamped.
\<close>

theorem C4_citation_stores_as_given:
  "Citation_new cid did page sec excerpt score chain created =
     Inr \<lparr>citation_id = cid, document_id = did, page_number = page,
          section_reference = sec, text_excerpt = excerpt, confidence_score = score,
          provenance_chain = chain, created_at = created\<rparr>
   \<and> map_sum id confidence_score (Citation_new cid did page sec excerpt score chain created)
       = Inr score
   \<and> map_sum id provenance_chain (Citation_new cid did page sec excerpt score chain created)
       = Inr chain"
  by (simp add: Citation_new_def)

text \<open>
  C4 as stated fails: a citation with the score 1.5 and a citation with an empty
  provenance chain are both constructed.
\<close>

theorem C4_citation_counterexample:
  "Citation_new ''c1'' ''d1'' 1 ''s1'' ''excerpt'' (3 / 2) [''retrieval''] 0 =
     Inr \<lparr>citation_id = ''c1'', document_id = ''d1'', page_number = 1,
          section_reference = ''s1'', text_excerpt = ''excerpt'', confidence_score = 3 / 2,
          provenance_chain = [''retrieval''], created_at = 0\<rparr>
   \<and> \<not> ((3 / 2 :: real) \<le> 1)
   \<and> Citation_new ''c1'' ''d1'' 1 ''s1'' ''excerpt'' (1 / 2) [] 0 =
     Inr \<lparr>citation_id = ''c1'', document_id = ''d1'', page_number = 1,
          section_reference = ''s1'', text_excerpt = ''excerpt'', confidence_score = 1 / 2,
          provenance_chain = [], created_at = 0\<rparr>
   \<and> \<not> (1 \<le> length ([] :: string list))"
  by (simp add: Citation_new_def)

text \<open>
  C5 (as amended). A \<^verbatim>\<open>SearchQuery\<close> is constructed for every integer limit and offset:
  both are stored as given, 20 and 0 standing in for a limit and an offset that are not
  given, and no bound is checked.
\<close>

theorem C5_search_query_stores_as_given:
  "SearchQuery_new (Some t) st fs lmt off =
     Inr \<lparr>query_text = t,
          search_type = (case st of None \<Rightarrow> KEYWORD | Some x \<Rightarrow> x),
          filters = (case fs of
                       None \<Rightarrow> \<lparr>document_type = None, study_id = None, section_codes = None,
                                 date_range = None, access_level = None\<rparr>
                     | Some x \<Rightarrow> x),
          limit = (case lmt of None \<Rightarrow> 20 | Some x \<Rightarrow> x),
          offset = (case off of None \<Rightarrow> 0 | Some x \<Rightarrow> x)\<rparr>
   \<and> map_sum id limit (SearchQuery_new (Some t) st fs (Some n) (Some m)) = Inr n
   \<and> map_sum id offset (SearchQuery_new (Some t) st fs (Some n) (Some m)) = Inr m"
  by (simp add: SearchQuery_new_def)

text \<open>
  C5 as stated fails: a query with the limit -1 and the offset -7 is constructed.
\<close>

theorem C5_search_query_counterexample:
  "SearchQuery_new (Some ''fever'') None None (Some (- 1)) (Some (- 7)) =
     Inr \<lparr>query_text = ''fever'', search_type = KEYWORD,
          filters = \<lparr>document_type = None, study_id = None, section_codes = None,
                     date_range = None, access_level = None\<rparr>,
          limit = - 1, offset = - 7\<rparr>
   \<and> \<not> (0 \<le> (- 1 :: int)) \<and> \<not> (0 \<le> (- 7 :: int))"
  by (simp add: SearchQuery_new_def)

text \<open>
  C9 (as amended). An \<^verbatim>\<open>EmbeddingResponse\<close> is constructed for every vector and every
  declared dimension: both are stored as given and are not compared.
\<close>

theorem C9_embedding_response_stores_as_given:
  "EmbeddingResponse_new emb info dimn generated =
     Inr \<lparr>embedding = emb, model_info = info, dimension = dimn, generated_at = generated\<rparr>
   \<and> map_sum id embedding (EmbeddingResponse_new emb info dimn generated) = Inr emb
   \<and> map_sum id dimension (EmbeddingResponse_new emb info dimn generated) = Inr dimn"
  by (simp add: EmbeddingResponse_new_def)

text \<open>
  C9 as stated fails: a response with an empty vector and the declared dimension 3 is
  constructed.
\<close>

theorem C9_embedding_response_counterexample:
  "EmbeddingResponse_new [] (Map.empty :: string \<rightharpoonup> string) 3 0 =
     Inr \<lparr>embedding = [], model_info = Map.empty, dimension = 3, generated_at = 0\<rparr>
   \<and> int (length ([] :: real list)) \<noteq> 3"
  by (simp add: EmbeddingResponse_new_def)

lemma SearchType_of_value_value: "SearchType_of_value (SearchType_value t) = Some t"
  by (cases t) (simp_all add: SearchType_of_value_def)

lemma DocumentType_of_value_value: "DocumentType_of_value (DocumentType_value d) = Some d"
  by (cases d) (simp_all add: DocumentType_of_value_def)

lemma SearchFilters_round_trip: "SearchFilters_parse_obj (SearchFilters_dict f) = Inr f"
  by (cases "document_type f")
     (simp_all add: SearchFilters_parse_obj_def SearchFilters_dict_def enum_field_def
        SearchFilters_new_def DocumentType_of_value_value)

text \<open>
  C8. Writing a \<^verbatim>\<open>SearchQuery\<close> in its dictionary form and reading the form back gives
  the query again, equal in every field, whatever filters are present or absent; the same
  holds for the filters alone.
\<close>

theorem C8_search_query_round_trip:
  "SearchQuery_parse_obj (SearchQuery_dict q) = Inr q
   \<and> SearchFilters_parse_obj (SearchFilters_dict (filters q)) = Inr (filters q)"
  by (simp add: SearchQuery_parse_obj_def SearchQuery_dict_def enum_field_def
        SearchType_of_value_value SearchFilters_round_trip SearchQuery_new_def)

section \<open>Properties of the configuration\<close>

lemmas field_defs = str_field_def int_field_def bool_field_def float_field_def typed_field_def
  literal_field_def

lemmas sub_config_defs = BedrockConfig_new_def DatabricksConfig_new_def OpenSearchConfig_new_def
  S3Config_new_def DeltaConfig_new_def RedisConfig_new_def SecurityConfig_new_def
  SecurityConfig_fields_def

lemmas resolution_defs = get_settings_def SystemConfig_new_def SystemConfig_fields_def
  sources_error_def selector_values_def
  ai_provider_field_def search_provider_field_def vector_provider_field_def
  validate_bedrock_config_def validate_databricks_config_def validate_opensearch_config_def

lemmas sample_defs = sample_coercions_def sample_env_def sample_source_def sample_bedrock_def
  databricks_env_def override_source_def bare_databricks_source_def missing_token_source_def
  fresh_def

lemma with_field_Inr: "with_field f x = Inr y \<longleftrightarrow> (\<exists>g a. f = Inr g \<and> x = Inr a \<and> y = g a)"
  by (cases f; cases x) auto

lemma raise_validation_Inr: "raise_validation m r = Inr x \<longleftrightarrow> r = Inr x"
  by (cases r) auto

lemma validated_Inr: "validated n r = Inr x \<longleftrightarrow> r = Inr x"
  by (cases r) auto

lemma construct_Inr: "construct c r l = (Inr x, l') \<longleftrightarrow> r = Inr x \<and> l' = l @ [c]"
  by (cases r) auto

lemma construct_Inl: "construct c r l = (Inl e, l') \<longleftrightarrow> r = Inl e \<and> l' = l"
  by (cases r) auto

lemma infrastructure_field_valid:
  "infrastructure_field cls name sv factory l = (Inr (Inr c), l') \<Longrightarrow> l' = l @ [cls]"
  by (induction cls name sv factory l rule: infrastructure_field.induct) auto

lemma type_checked_valid:
  "type_checked cls name v l = (Inr x, l') \<Longrightarrow>
     (v = Inr None \<and> x = None \<and> l' = l)
     \<or> (\<exists>c. v = Inr (Some (Object c)) \<and> x = Some c \<and> l' = l)
     \<or> (\<exists>c. v = Inr (Some (Data (Inr c))) \<and> x = Some c \<and> l' = l @ [cls])"
  by (induction cls name v l rule: type_checked.induct) auto

lemma bedrock_field_valid:
  assumes "validate_bedrock_config P env (raw_value sv) vals l = (v, l1)"
    and "type_checked ''BedrockConfig'' ''bedrock'' v l1 = (Inr x, l2)"
  shows "l2 = l @ (if x = None then [] else [''BedrockConfig''])
       \<and> (sv = Absent \<longrightarrow> (x \<noteq> None \<longleftrightarrow> vals ''ai_provider'' = Some ''bedrock''))"
  using assms type_checked_valid [OF assms(2)]
  by (cases sv; cases "BedrockConfig_new P env")
     (auto simp: validate_bedrock_config_def split: if_splits)

lemma databricks_field_valid:
  assumes "validate_databricks_config env (raw_value sv) vals l = (v, l1)"
    and "type_checked ''DatabricksConfig'' ''databricks'' v l1 = (Inr x, l2)"
  shows "l2 = l @ (if x = None then [] else [''DatabricksConfig''])
       \<and> (sv = Absent \<longrightarrow> (x \<noteq> None \<longleftrightarrow> vals ''ai_provider'' = Some ''databricks''
            \<or> vals ''search_provider'' = Some ''databricks_vector''
            \<or> vals ''vector_provider'' = Some ''databricks_vector''))"
  using assms type_checked_valid [OF assms(2)]
  by (cases sv; cases "DatabricksConfig_new env")
     (auto simp: validate_databricks_config_def Let_def split: if_splits)

lemma opensearch_field_valid:
  assumes "validate_opensearch_config P env (raw_value sv) vals l = (v, l1)"
    and "type_checked ''OpenSearchConfig'' ''opensearch'' v l1 = (Inr x, l2)"
  shows "l2 = l @ (if x = None then [] else [''OpenSearchConfig''])
       \<and> (sv = Absent \<longrightarrow> (x \<noteq> None \<longleftrightarrow> vals ''search_provider'' = Some ''opensearch''
            \<or> vals ''vector_provider'' = Some ''opensearch''))"
  using assms type_checked_valid [OF assms(2)]
  by (cases sv; cases "OpenSearchConfig_new P env")
     (auto simp: validate_opensearch_config_def Let_def split: if_splits)

lemma SystemConfig_new_Inr:
  assumes "SystemConfig_new P src l0 = (Inr cfg, l)"
  shows "\<exists>vb l1 l2 vd l3 l4 vo l5 l6.
      validate_bedrock_config P (environ src) (raw_value (supplied_bedrock src))
        (selector_values (dotenv src ++ environ src)) l0 = (vb, l1)
    \<and> type_checked ''BedrockConfig'' ''bedrock'' vb l1 = (Inr (bedrock cfg), l2)
    \<and> validate_databricks_config (environ src) (raw_value (supplied_databricks src))
        (selector_values (dotenv src ++ environ src)) l2 = (vd, l3)
    \<and> type_checked ''DatabricksConfig'' ''databricks'' vd l3 = (Inr (databricks cfg), l4)
    \<and> validate_opensearch_config P (environ src) (raw_value (supplied_opensearch src))
        (selector_values (dotenv src ++ environ src)) l4 = (vo, l5)
    \<and> type_checked ''OpenSearchConfig'' ''opensearch'' vo l5 = (Inr (opensearch cfg), l6)
    \<and> ai_provider_field (dotenv src ++ environ src) = Inr (ai_provider cfg)
    \<and> search_provider_field (dotenv src ++ environ src) = Inr (search_provider cfg)
    \<and> vector_provider_field (dotenv src ++ environ src) = Inr (vector_provider cfg)
    \<and> l = l6 @ [''S3Config'', ''DeltaConfig'', ''RedisConfig'', ''SecurityConfig'', ''SystemConfig'']"
  using assms
  unfolding SystemConfig_new_def SystemConfig_fields_def Let_def
  by (auto split: prod.splits sum.splits option.splits
      simp: construct_Inr construct_Inl with_field_Inr raise_validation_Inr validated_Inr
      dest!: infrastructure_field_valid)

lemma selector_values_ai:
  "selector_values env ''ai_provider'' =
     (case ai_provider_field env of Inr a \<Rightarrow> Some a | Inl es \<Rightarrow> None)"
  by (cases "ai_provider_field env"; cases "search_provider_field env";
      cases "vector_provider_field env") (simp_all add: selector_values_def)

lemma selector_values_search:
  "selector_values env ''search_provider'' =
     (case search_provider_field env of Inr a \<Rightarrow> Some a | Inl es \<Rightarrow> None)"
  by (cases "ai_provider_field env"; cases "search_provider_field env";
      cases "vector_provider_field env") (simp_all add: selector_values_def)

lemma selector_values_vector:
  "selector_values env ''vector_provider'' =
     (case vector_provider_field env of Inr a \<Rightarrow> Some a | Inl es \<Rightarrow> None)"
  by (cases "ai_provider_field env"; cases "search_provider_field env";
      cases "vector_provider_field env") (simp_all add: selector_values_def)

lemma SystemConfig_new_valid:
  assumes new: "SystemConfig_new P src l0 = (Inr cfg, l)"
  shows "l = l0 @ (if bedrock cfg = None then [] else [''BedrockConfig''])
                @ (if databricks cfg = None then [] else [''DatabricksConfig''])
                @ (if opensearch cfg = None then [] else [''OpenSearchConfig''])
                @ [''S3Config'', ''DeltaConfig'', ''RedisConfig'', ''SecurityConfig'',
                   ''SystemConfig'']"
    and "supplied_bedrock src = Absent \<Longrightarrow>
           (bedrock cfg \<noteq> None \<longleftrightarrow> ai_provider cfg = ''bedrock'')"
    and "supplied_databricks src = Absent \<Longrightarrow>
           (databricks cfg \<noteq> None \<longleftrightarrow> ai_provider cfg = ''databricks''
              \<or> search_provider cfg = ''databricks_vector''
              \<or> vector_provider cfg = ''databricks_vector'')"
    and "supplied_opensearch src = Absent \<Longrightarrow>
           (opensearch cfg \<noteq> None \<longleftrightarrow> search_provider cfg = ''opensearch''
              \<or> vector_provider cfg = ''opensearch'')"
proof -
  let ?env = "environ src"
  let ?own = "dotenv src ++ environ src"
  from SystemConfig_new_Inr [OF new] obtain vb l1 l2 vd l3 l4 vo l5 l6 where
    vb: "validate_bedrock_config P ?env (raw_value (supplied_bedrock src))
           (selector_values ?own) l0 = (vb, l1)"
    and b: "type_checked ''BedrockConfig'' ''bedrock'' vb l1 = (Inr (bedrock cfg), l2)"
    and vd: "validate_databricks_config ?env (raw_value (supplied_databricks src))
           (selector_values ?own) l2 = (vd, l3)"
    and d: "type_checked ''DatabricksConfig'' ''databricks'' vd l3 = (Inr (databricks cfg), l4)"
    and vo: "validate_opensearch_config P ?env (raw_value (supplied_opensearch src))
           (selector_values ?own) l4 = (vo, l5)"
    and os: "type_checked ''OpenSearchConfig'' ''opensearch'' vo l5 = (Inr (opensearch cfg), l6)"
    and ai: "ai_provider_field ?own = Inr (ai_provider cfg)"
    and se: "search_provider_field ?own = Inr (search_provider cfg)"
    and ve: "vector_provider_field ?own = Inr (vector_provider cfg)"
    and l: "l = l6 @ [''S3Config'', ''DeltaConfig'', ''RedisConfig'', ''SecurityConfig'',
                      ''SystemConfig'']"
    by blast
  have vals: "selector_values ?own ''ai_provider'' = Some (ai_provider cfg)"
    "selector_values ?own ''search_provider'' = Some (search_provider cfg)"
    "selector_values ?own ''vector_provider'' = Some (vector_provider cfg)"
    by (simp_all add: selector_values_ai selector_values_search selector_values_vector ai se ve)
  note bf = bedrock_field_valid [OF vb b]
  note df = databricks_field_valid [OF vd d]
  note of = opensearch_field_valid [OF vo os]
  from bf df of l
  show "l = l0 @ (if bedrock cfg = None then [] else [''BedrockConfig''])
                @ (if databricks cfg = None then [] else [''DatabricksConfig''])
                @ (if opensearch cfg = None then [] else [''OpenSearchConfig''])
                @ [''S3Config'', ''DeltaConfig'', ''RedisConfig'', ''SecurityConfig'',
                   ''SystemConfig'']"
    by simp
  from bf vals show "supplied_bedrock src = Absent \<Longrightarrow>
           (bedrock cfg \<noteq> None \<longleftrightarrow> ai_provider cfg = ''bedrock'')"
    by simp
  from df vals show "supplied_databricks src = Absent \<Longrightarrow>
           (databricks cfg \<noteq> None \<longleftrightarrow> ai_provider cfg = ''databricks''
              \<or> search_provider cfg = ''databricks_vector''
              \<or> vector_provider cfg = ''databricks_vector'')"
    by simp
  from of vals show "supplied_opensearch src = Absent \<Longrightarrow>
           (opensearch cfg \<noteq> None \<longleftrightarrow> search_provider cfg = ''opensearch''
              \<or> vector_provider cfg = ''opensearch'')"
    by simp
qed

text \<open>The resolutions of the sample deployments, evaluated.\<close>

lemma sample_resolution:
  "get_settings sample_coercions sample_source fresh =
     (Inr (6, sample_config),
      \<lparr>settings_cache = Some (6, sample_config),
       constructed = [''BedrockConfig'', ''OpenSearchConfig'', ''S3Config'', ''DeltaConfig'',
                      ''RedisConfig'', ''SecurityConfig'', ''SystemConfig'']\<rparr>)"
  by (simp add: resolution_defs sub_config_defs field_defs sample_defs sample_config_def)





lemma validate_bedrock_log:
  "validate_bedrock_config P env v vals l = (r, l') \<Longrightarrow>
     count_list l' ''SystemConfig'' = count_list l ''SystemConfig''"
  by (cases "BedrockConfig_new P env")
     (auto simp: validate_bedrock_config_def split: if_splits option.splits)

lemma validate_databricks_log:
  "validate_databricks_config env v vals l = (r, l') \<Longrightarrow>
     count_list l' ''SystemConfig'' = count_list l ''SystemConfig''"
  by (cases "DatabricksConfig_new env")
     (auto simp: validate_databricks_config_def Let_def split: if_splits option.splits)

lemma validate_opensearch_log:
  "validate_opensearch_config P env v vals l = (r, l') \<Longrightarrow>
     count_list l' ''SystemConfig'' = count_list l ''SystemConfig''"
  by (cases "OpenSearchConfig_new P env")
     (auto simp: validate_opensearch_config_def Let_def split: if_splits option.splits)

lemma type_checked_log:
  "type_checked cls name v l = (r, l') \<Longrightarrow> cls \<noteq> ''SystemConfig'' \<Longrightarrow>
     count_list l' ''SystemConfig'' = count_list l ''SystemConfig''"
  by (induction cls name v l rule: type_checked.induct) auto

lemma infrastructure_field_log:
  "infrastructure_field cls name sv factory l = (r, l') \<Longrightarrow> cls \<noteq> ''SystemConfig'' \<Longrightarrow>
     count_list l' ''SystemConfig'' = count_list l ''SystemConfig''"
  by (induction cls name sv factory l rule: infrastructure_field.induct) auto

lemma SystemConfig_new_Inl_log:
  assumes "SystemConfig_new P src l0 = (Inl e, l)"
  shows "count_list l ''SystemConfig'' = count_list l0 ''SystemConfig''"
proof -
  let ?env = "environ src"
  let ?vals = "selector_values (dotenv src ++ environ src)"
  obtain vb l1 where vb: "validate_bedrock_config P ?env (raw_value (supplied_bedrock src))
      ?vals l0 = (vb, l1)"
    by (cases "validate_bedrock_config P ?env (raw_value (supplied_bedrock src)) ?vals l0")
  obtain b l2 where b: "type_checked ''BedrockConfig'' ''bedrock'' vb l1 = (b, l2)"
    by (cases "type_checked ''BedrockConfig'' ''bedrock'' vb l1")
  obtain vd l3 where vd: "validate_databricks_config ?env (raw_value (supplied_databricks src))
      ?vals l2 = (vd, l3)"
    by (cases "validate_databricks_config ?env (raw_value (supplied_databricks src)) ?vals l2")
  obtain d l4 where d: "type_checked ''DatabricksConfig'' ''databricks'' vd l3 = (d, l4)"
    by (cases "type_checked ''DatabricksConfig'' ''databricks'' vd l3")
  obtain vo l5 where vo: "validate_opensearch_config P ?env (raw_value (supplied_opensearch src))
      ?vals l4 = (vo, l5)"
    by (cases "validate_opensearch_config P ?env (raw_value (supplied_opensearch src)) ?vals l4")
  obtain os l6 where os: "type_checked ''OpenSearchConfig'' ''opensearch'' vo l5 = (os, l6)"
    by (cases "type_checked ''OpenSearchConfig'' ''opensearch'' vo l5")
  obtain s3r l7 where s3r: "infrastructure_field ''S3Config'' ''s3'' (supplied_s3 src)
      (S3Config_new ?env) l6 = (s3r, l7)"
    by (cases "infrastructure_field ''S3Config'' ''s3'' (supplied_s3 src) (S3Config_new ?env) l6")
  obtain dr l8 where dr: "infrastructure_field ''DeltaConfig'' ''delta'' (supplied_delta src)
      (DeltaConfig_new ?env) l7 = (dr, l8)"
    by (cases "infrastructure_field ''DeltaConfig'' ''delta'' (supplied_delta src)
      (DeltaConfig_new ?env) l7")
  obtain rr l9 where rr: "infrastructure_field ''RedisConfig'' ''redis'' (supplied_redis src)
      (RedisConfig_new P ?env) l8 = (rr, l9)"
    by (cases "infrastructure_field ''RedisConfig'' ''redis'' (supplied_redis src)
      (RedisConfig_new P ?env) l8")
  obtain sr l10 where sr: "infrastructure_field ''SecurityConfig'' ''security''
      (supplied_security src) (SecurityConfig_new P ?env) l9 = (sr, l10)"
    by (cases "infrastructure_field ''SecurityConfig'' ''security''
      (supplied_security src) (SecurityConfig_new P ?env) l9")
  have c6: "count_list l6 ''SystemConfig'' = count_list l0 ''SystemConfig''"
    using validate_bedrock_log [OF vb] type_checked_log [OF b]
      validate_databricks_log [OF vd] type_checked_log [OF d]
      validate_opensearch_log [OF vo] type_checked_log [OF os]
    by simp
  have c7: "count_list l7 ''SystemConfig'' = count_list l0 ''SystemConfig''"
    using infrastructure_field_log [OF s3r] c6 by simp
  have c8: "count_list l8 ''SystemConfig'' = count_list l0 ''SystemConfig''"
    using infrastructure_field_log [OF dr] c7 by simp
  have c9: "count_list l9 ''SystemConfig'' = count_list l0 ''SystemConfig''"
    using infrastructure_field_log [OF rr] c8 by simp
  have c10: "count_list l10 ''SystemConfig'' = count_list l0 ''SystemConfig''"
    using infrastructure_field_log [OF sr] c9 by simp
  show ?thesis
    using assms c7 c8 c9 c10
    by (auto simp: SystemConfig_new_def Let_def vb b vd d vo os s3r dr rr sr construct_Inl
          split: option.splits sum.splits)
qed

lemma SystemConfig_new_Inr_log:
  assumes "SystemConfig_new P src l0 = (Inr cfg, l)"
  shows "count_list l ''SystemConfig'' = count_list l0 ''SystemConfig'' + 1
         \<and> l \<noteq> [] \<and> last l = ''SystemConfig''"
  by (simp add: SystemConfig_new_valid(1) [OF assms])

lemma get_settings_hit: "settings_cache s = Some x \<Longrightarrow> get_settings P src s = (Inr x, s)"
  by (simp add: get_settings_def)

lemma get_settings_miss_Inl:
  assumes "settings_cache s = None" "get_settings P src s = (Inl e, s')"
  shows "settings_cache s' = None
         \<and> count_list (constructed s') ''SystemConfig'' = count_list (constructed s) ''SystemConfig''"
  using assms
  by (auto simp: get_settings_def split: prod.splits sum.splits dest: SystemConfig_new_Inl_log)

lemma get_settings_miss_Inr:
  assumes "settings_cache s = None" "get_settings P src s = (Inr x, s')"
  shows "settings_cache s' = Some x
         \<and> count_list (constructed s') ''SystemConfig''
             = count_list (constructed s) ''SystemConfig'' + 1
         \<and> fst x < length (constructed s')
         \<and> constructed s' ! fst x = ''SystemConfig''"
proof -
  from assms obtain cfg l where
    new: "SystemConfig_new P src (constructed s) = (Inr cfg, l)"
    and x: "x = (length l - 1, cfg)"
    and s': "s' = \<lparr>settings_cache = Some x, constructed = l\<rparr>"
    by (auto simp: get_settings_def split: prod.splits sum.splits)
  from SystemConfig_new_Inr_log [OF new]
  have count: "count_list l ''SystemConfig'' = count_list (constructed s) ''SystemConfig'' + 1"
    and nonempty: "l \<noteq> []" and final: "last l = ''SystemConfig''"
    by simp_all
  from nonempty final have "l ! (length l - 1) = ''SystemConfig''"
    by (simp add: last_conv_nth)
  with count nonempty show ?thesis
    by (simp add: x s')
qed

lemma get_settings_calls_hit:
  "settings_cache s = Some x \<Longrightarrow>
     get_settings_calls P srcs s = (replicate (length srcs) (Inr x), s)"
  by (induction srcs) (simp_all add: get_settings_hit)

lemma get_settings_calls_miss:
  assumes "settings_cache s = None" "get_settings_calls P srcs s = (rs, s')"
  shows "(\<exists>es. rs = map Inl es \<and> length es = length srcs \<and> settings_cache s' = None
            \<and> count_list (constructed s') ''SystemConfig''
                = count_list (constructed s) ''SystemConfig'')
       \<or> (\<exists>es n x. rs = map Inl es @ replicate (Suc n) (Inr x)
            \<and> length es + Suc n = length srcs \<and> settings_cache s' = Some x
            \<and> count_list (constructed s') ''SystemConfig''
                = count_list (constructed s) ''SystemConfig'' + 1
            \<and> fst x < length (constructed s') \<and> constructed s' ! fst x = ''SystemConfig'')"
  using assms
proof (induction srcs arbitrary: s rs s')
  case Nil
  then show ?case by simp
next
  case (Cons src srcs)
  obtain r s1 where first: "get_settings P src s = (r, s1)"
    by (cases "get_settings P src s")
  obtain rs1 where rest: "get_settings_calls P srcs s1 = (rs1, s')" and rs: "rs = r # rs1"
    using Cons.prems(2) first by (auto split: prod.splits)
  show ?case
  proof (cases r)
    case (Inl e)
    from get_settings_miss_Inl [OF Cons.prems(1) first [unfolded Inl]]
    have s1: "settings_cache s1 = None"
      and c1: "count_list (constructed s1) ''SystemConfig''
                 = count_list (constructed s) ''SystemConfig''"
      by simp_all
    from Cons.IH [OF s1 rest] show ?thesis
    proof
      assume "\<exists>es. rs1 = map Inl es \<and> length es = length srcs \<and> settings_cache s' = None
            \<and> count_list (constructed s') ''SystemConfig''
                = count_list (constructed s1) ''SystemConfig''"
      then obtain es where "rs1 = map Inl es" "length es = length srcs"
        "settings_cache s' = None"
        "count_list (constructed s') ''SystemConfig'' = count_list (constructed s1) ''SystemConfig''"
        by blast
      then have "rs = map Inl (e # es) \<and> length (e # es) = length (src # srcs)
          \<and> settings_cache s' = None
          \<and> count_list (constructed s') ''SystemConfig''
                = count_list (constructed s) ''SystemConfig''"
        by (simp add: rs Inl c1)
      then show ?thesis by blast
    next
      assume "\<exists>es n x. rs1 = map Inl es @ replicate (Suc n) (Inr x)
            \<and> length es + Suc n = length srcs \<and> settings_cache s' = Some x
            \<and> count_list (constructed s') ''SystemConfig''
                = count_list (constructed s1) ''SystemConfig'' + 1
            \<and> fst x < length (constructed s') \<and> constructed s' ! fst x = ''SystemConfig''"
      then obtain es n x where "rs1 = map Inl es @ replicate (Suc n) (Inr x)"
        "length es + Suc n = length srcs" "settings_cache s' = Some x"
        "count_list (constructed s') ''SystemConfig''
                = count_list (constructed s1) ''SystemConfig'' + 1"
        "fst x < length (constructed s')" "constructed s' ! fst x = ''SystemConfig''"
        by blast
      then have "rs = map Inl (e # es) @ replicate (Suc n) (Inr x)
            \<and> length (e # es) + Suc n = length (src # srcs) \<and> settings_cache s' = Some x
            \<and> count_list (constructed s') ''SystemConfig''
                = count_list (constructed s) ''SystemConfig'' + 1
            \<and> fst x < length (constructed s') \<and> constructed s' ! fst x = ''SystemConfig''"
        by (simp add: rs Inl c1)
      then show ?thesis by blast
    qed
  next
    case (Inr x)
    from get_settings_miss_Inr [OF Cons.prems(1) first [unfolded Inr]]
    have s1: "settings_cache s1 = Some x"
      and c1: "count_list (constructed s1) ''SystemConfig''
                 = count_list (constructed s) ''SystemConfig'' + 1"
      and ref: "fst x < length (constructed s1)" "constructed s1 ! fst x = ''SystemConfig''"
      by simp_all
    from rest get_settings_calls_hit [OF s1, of P srcs]
    have rs1: "rs1 = replicate (length srcs) (Inr x)" and s': "s' = s1"
      by simp_all
    have "rs = map Inl [] @ replicate (Suc (length srcs)) (Inr x)
            \<and> length ([] :: error list) + Suc (length srcs) = length (src # srcs)
            \<and> settings_cache s' = Some x
            \<and> count_list (constructed s') ''SystemConfig''
                = count_list (constructed s) ''SystemConfig'' + 1
            \<and> fst x < length (constructed s') \<and> constructed s' ! fst x = ''SystemConfig''"
      using s1 c1 ref by (simp add: rs Inr rs1 s')
    then show ?thesis by blast
  qed
qed

lemma sample_calls:
  "get_settings_calls sample_coercions [sample_source, sample_source, sample_source] fresh =
     ([Inr (6, sample_config), Inr (6, sample_config), Inr (6, sample_config)],
      \<lparr>settings_cache = Some (6, sample_config),
       constructed = [''BedrockConfig'', ''OpenSearchConfig'', ''S3Config'', ''DeltaConfig'',
                      ''RedisConfig'', ''SecurityConfig'', ''SystemConfig'']\<rparr>)"
  by (simp add: sample_resolution get_settings_hit)

text \<open>
  C2. Take any number of calls of \<^verbatim>\<open>get_settings\<close> in a process that starts with an empty
  cache, each call with the sources as they are at that moment. At most one
  \<^verbatim>\<open>SystemConfig\<close> is ever constructed. The results are a run of exceptions followed by
  a run of one and the same reference to one and the same object: once a call has returned
  a snapshot, every later call returns that identical object, and the reference points at
  a \<^verbatim>\<open>SystemConfig\<close> in the log of constructed objects. In particular, when the first of N
  calls returns a snapshot, all N calls return it.
\<close>

theorem C2_get_settings_memoized:
  assumes "get_settings_calls P srcs fresh = (rs, s')"
  shows "length rs = length srcs
       \<and> count_list (constructed s') ''SystemConfig'' \<le> 1
       \<and> (\<exists>es n x. rs = map Inl es @ replicate n (Inr x))
       \<and> (\<forall>i j x. i \<le> j \<and> j < length rs \<and> rs ! i = Inr x \<longrightarrow>
             rs ! j = Inr x \<and> fst x < length (constructed s')
             \<and> constructed s' ! fst x = ''SystemConfig'')
       \<and> (\<forall>src srcs' x. srcs = src # srcs' \<and> fst (get_settings P src fresh) = Inr x \<longrightarrow>
             rs = replicate (length srcs) (Inr x))"
proof -
  have fresh: "settings_cache fresh = None" "count_list (constructed fresh) ''SystemConfig'' = 0"
    by (simp_all add: fresh_def)
  from get_settings_calls_miss [OF fresh(1) assms] show ?thesis
  proof
    assume "\<exists>es. rs = map Inl es \<and> length es = length srcs \<and> settings_cache s' = None
            \<and> count_list (constructed s') ''SystemConfig''
                = count_list (constructed fresh) ''SystemConfig''"
    then obtain es where es: "rs = map Inl es" "length es = length srcs"
      "count_list (constructed s') ''SystemConfig'' = count_list (constructed fresh) ''SystemConfig''"
      by blast
    have 1: "length rs = length srcs" using es by simp
    have 2: "count_list (constructed s') ''SystemConfig'' \<le> 1" using es fresh by simp
    have 3: "\<exists>es n x. rs = map Inl es @ replicate n (Inr x)"
      using es(1) by (metis append_Nil2 replicate_0)
    have 4: "\<forall>i j x. i \<le> j \<and> j < length rs \<and> rs ! i = Inr x \<longrightarrow>
             rs ! j = Inr x \<and> fst x < length (constructed s')
             \<and> constructed s' ! fst x = ''SystemConfig''"
      using es(1) by auto
    have 5: "\<forall>src srcs' x. srcs = src # srcs' \<and> fst (get_settings P src fresh) = Inr x \<longrightarrow>
             rs = replicate (length srcs) (Inr x)"
      using assms es(1) by (cases es) (auto split: prod.splits)
    show ?thesis using 1 2 3 4 5 by blast
  next
    assume "\<exists>es n x. rs = map Inl es @ replicate (Suc n) (Inr x)
            \<and> length es + Suc n = length srcs \<and> settings_cache s' = Some x
            \<and> count_list (constructed s') ''SystemConfig''
                = count_list (constructed fresh) ''SystemConfig'' + 1
            \<and> fst x < length (constructed s') \<and> constructed s' ! fst x = ''SystemConfig''"
    then obtain es n x where es: "rs = map Inl es @ replicate (Suc n) (Inr x)"
      "length es + Suc n = length srcs"
      "count_list (constructed s') ''SystemConfig''
                = count_list (constructed fresh) ''SystemConfig'' + 1"
      "fst x < length (constructed s')" "constructed s' ! fst x = ''SystemConfig''"
      by blast
    have 1: "length rs = length srcs" using es by simp
    have 2: "count_list (constructed s') ''SystemConfig'' \<le> 1" using es fresh by simp
    have 3: "\<exists>es n x. rs = map Inl es @ replicate n (Inr x)"
      using es(1) by blast
    have 4: "\<forall>i j y. i \<le> j \<and> j < length rs \<and> rs ! i = Inr y \<longrightarrow>
             rs ! j = Inr y \<and> fst y < length (constructed s')
             \<and> constructed s' ! fst y = ''SystemConfig''"
    proof (intro allI impI)
      fix i j y
      assume h: "i \<le> j \<and> j < length rs \<and> rs ! i = Inr y"
      have i: "\<not> i < length es"
      proof
        assume "i < length es"
        then have "rs ! i = Inl (es ! i)" by (simp add: es(1) nth_append)
        with h show False by simp
      qed
      have len: "length rs = length es + Suc n" by (simp add: es(1))
      from i h len have "i - length es < Suc n" "j - length es < Suc n" "\<not> j < length es"
        by auto
      then have at: "rs ! i = Inr x" "rs ! j = Inr x"
        using i by (simp_all add: es(1) nth_append del: replicate_Suc)
      with h have y: "y = x" by simp
      note \<open>rs ! j = Inr x\<close>
      with y es(4,5) show "rs ! j = Inr y \<and> fst y < length (constructed s')
             \<and> constructed s' ! fst y = ''SystemConfig''" by simp
    qed
    have 5: "\<forall>src srcs' y. srcs = src # srcs' \<and> fst (get_settings P src fresh) = Inr y \<longrightarrow>
             rs = replicate (length srcs) (Inr y)"
    proof (intro allI impI)
      fix src srcs' y
      assume h: "srcs = src # srcs' \<and> fst (get_settings P src fresh) = Inr y"
      then obtain s1 where g: "get_settings P src fresh = (Inr y, s1)"
        by (cases "get_settings P src fresh") auto
      from get_settings_miss_Inr [OF fresh(1) g] have "settings_cache s1 = Some y" by simp
      from get_settings_calls_hit [OF this, of P srcs'] assms h g
      show "rs = replicate (length srcs) (Inr y)" by auto
    qed
    show ?thesis using 1 2 3 4 5 by blast
  qed
qed


theorem C2_get_settings_memoized_witness:
  "fst (get_settings sample_coercions sample_source fresh) = Inr (6, sample_config)
   \<and> fst (get_settings_calls sample_coercions [sample_source, sample_source, sample_source] fresh)
       = replicate 3 (Inr (6, sample_config))
   \<and> count_list
        (constructed
          (snd (get_settings_calls sample_coercions [sample_source, sample_source, sample_source]
                  fresh)))
        ''SystemConfig'' \<le> 1"
  using C2_get_settings_memoized [OF sample_calls]
  unfolding sample_calls sample_resolution
  by (simp add: numeral_3_eq_3)

lemma reports_with_field: "reports (with_field f x) e \<longleftrightarrow> reports f e \<or> reports x e"
  by (cases f; cases x) auto

lemma reports_str_field:
  "reports (str_field env var fld None) e \<longleftrightarrow> env var = None \<and> e = ([fld], ''field required'')"
  by (auto simp: str_field_def split: option.splits)

lemma raise_validation_reports:
  "reports r e \<Longrightarrow> \<exists>es. raise_validation m r = Inl (ValidationError m es) \<and> e \<in> set es"
  by (cases r) auto

lemma DatabricksConfig_new_missing:
  assumes "(var, fld) \<in> set databricks_required" "env var = None"
  shows "\<exists>es. DatabricksConfig_new env = Inl (ValidationError ''DatabricksConfig'' es)
              \<and> ([fld], ''field required'') \<in> set es"
  unfolding DatabricksConfig_new_def
  apply (rule raise_validation_reports)
  using assms
  apply (auto simp: reports_with_field reports_str_field databricks_required_def)
  done

lemma OpenSearchConfig_new_missing:
  assumes "(var, fld) \<in> set opensearch_required" "env var = None"
  shows "\<exists>es. OpenSearchConfig_new P env = Inl (ValidationError ''OpenSearchConfig'' es)
              \<and> ([fld], ''field required'') \<in> set es"
  unfolding OpenSearchConfig_new_def
  apply (rule raise_validation_reports)
  using assms
  apply (auto simp: reports_with_field reports_str_field opensearch_required_def)
  done

lemma errors_at_nested:
  "([fld], msg) \<in> set es \<Longrightarrow>
     ([family, fld], msg) \<in> set (errors_at family (ValidationError m es))"
  by (force simp: image_iff)

lemma databricks_field_missing:
  assumes "vals ''ai_provider'' = Some ''databricks''
           \<or> vals ''search_provider'' = Some ''databricks_vector''
           \<or> vals ''vector_provider'' = Some ''databricks_vector''"
    and "(var, fld) \<in> set databricks_required" "env var = None"
  shows "reports (fst (type_checked ''DatabricksConfig'' ''databricks''
                    (fst (validate_databricks_config env None vals l1)) l2))
           ([''databricks'', fld], ''field required'')"
proof -
  from DatabricksConfig_new_missing [of var fld env, OF assms(2,3)] obtain es where
    "DatabricksConfig_new env = Inl (ValidationError ''DatabricksConfig'' es)"
    "([fld], ''field required'') \<in> set es" by blast
  with assms(1)
    errors_at_nested [of fld "''field required''" es "''databricks''" "''DatabricksConfig''"]
  show ?thesis
    by (simp add: validate_databricks_config_def)
qed

lemma opensearch_field_missing:
  assumes "vals ''search_provider'' = Some ''opensearch''
           \<or> vals ''vector_provider'' = Some ''opensearch''"
    and "(var, fld) \<in> set opensearch_required" "env var = None"
  shows "reports (fst (type_checked ''OpenSearchConfig'' ''opensearch''
                    (fst (validate_opensearch_config P env None vals l1)) l2))
           ([''opensearch'', fld], ''field required'')"
proof -
  from OpenSearchConfig_new_missing [of var fld env P, OF assms(2,3)] obtain es where
    "OpenSearchConfig_new P env = Inl (ValidationError ''OpenSearchConfig'' es)"
    "([fld], ''field required'') \<in> set es" by blast
  with assms(1)
    errors_at_nested [of fld "''field required''" es "''opensearch''" "''OpenSearchConfig''"]
  show ?thesis
    by (simp add: validate_opensearch_config_def)
qed

lemma SystemConfig_fields_reports:
  "reports d e \<or> reports os e
   \<Longrightarrow> reports (SystemConfig_fields P env b d os s3f deltaf redisf securityf) e"
  by (auto simp: SystemConfig_fields_def reports_with_field)

lemma construct_raise_reports:
  "reports ch e \<Longrightarrow> construct c (raise_validation m ch) l = (r, l') \<Longrightarrow>
     \<exists>es. r = Inl (ValidationError m es) \<and> e \<in> set es"
  by (cases ch) auto

lemma first_error_None: "first_error es = None \<longleftrightarrow> (\<forall>e \<in> set es. e = None)"
  by (induction es rule: first_error.induct) auto

lemma undecodable_None: "undecodable name sv = None \<longleftrightarrow> sv \<noteq> Undecodable"
  by (cases sv) auto

lemma infrastructure_field_Inl:
  "sv \<noteq> Undecodable \<Longrightarrow>
     infrastructure_field cls name sv factory l = (Inl e, l')
       \<longleftrightarrow> default_error sv factory = Some e \<and> l' = l"
  by (induction cls name sv factory l rule: infrastructure_field.induct) auto

lemma infrastructure_field_Inr:
  "infrastructure_field cls name sv factory l = (Inr x, l') \<Longrightarrow> default_error sv factory = None"
  by (induction cls name sv factory l rule: infrastructure_field.induct) auto

lemma SystemConfig_new_reports:
  assumes new: "SystemConfig_new P src l0 = (r, l)"
    and rep: "(\<forall>l1 l2. reports (fst (type_checked ''DatabricksConfig'' ''databricks''
                  (fst (validate_databricks_config (environ src)
                         (raw_value (supplied_databricks src))
                         (selector_values (dotenv src ++ environ src)) l1)) l2)) e)
            \<or> (\<forall>l1 l2. reports (fst (type_checked ''OpenSearchConfig'' ''opensearch''
                  (fst (validate_opensearch_config P (environ src)
                         (raw_value (supplied_opensearch src))
                         (selector_values (dotenv src ++ environ src)) l1)) l2)) e)"
  shows "\<exists>err. r = Inl err
           \<and> (\<forall>e1. sources_error src = Some e1 \<longrightarrow> err = e1)
           \<and> (sources_error src = None \<longrightarrow>
                (\<forall>e2. factory_error P src = Some e2 \<longrightarrow> err = e2)
                \<and> (factory_error P src = None \<longrightarrow>
                     (\<exists>es. err = ValidationError ''SystemConfig'' es \<and> e \<in> set es)))"
proof (cases "sources_error src")
  case (Some e1)
  with new show ?thesis by (simp add: SystemConfig_new_def)
next
  case None
  then have decodable: "supplied_s3 src \<noteq> Undecodable" "supplied_delta src \<noteq> Undecodable"
    "supplied_redis src \<noteq> Undecodable" "supplied_security src \<noteq> Undecodable"
    by (simp_all add: sources_error_def first_error_None undecodable_None)
  let ?env = "environ src"
  let ?vals = "selector_values (dotenv src ++ environ src)"
  obtain vb l1 where vb: "validate_bedrock_config P ?env (raw_value (supplied_bedrock src))
      ?vals l0 = (vb, l1)"
    by (cases "validate_bedrock_config P ?env (raw_value (supplied_bedrock src)) ?vals l0")
  obtain b l2 where b: "type_checked ''BedrockConfig'' ''bedrock'' vb l1 = (b, l2)"
    by (cases "type_checked ''BedrockConfig'' ''bedrock'' vb l1")
  obtain vd l3 where vd: "validate_databricks_config ?env (raw_value (supplied_databricks src))
      ?vals l2 = (vd, l3)"
    by (cases "validate_databricks_config ?env (raw_value (supplied_databricks src)) ?vals l2")
  obtain d l4 where d: "type_checked ''DatabricksConfig'' ''databricks'' vd l3 = (d, l4)"
    by (cases "type_checked ''DatabricksConfig'' ''databricks'' vd l3")
  obtain vo l5 where vo: "validate_opensearch_config P ?env (raw_value (supplied_opensearch src))
      ?vals l4 = (vo, l5)"
    by (cases "validate_opensearch_config P ?env (raw_value (supplied_opensearch src)) ?vals l4")
  obtain os l6 where os: "type_checked ''OpenSearchConfig'' ''opensearch'' vo l5 = (os, l6)"
    by (cases "type_checked ''OpenSearchConfig'' ''opensearch'' vo l5")
  from rep vd d vo os have "reports d e \<or> reports os e"
    by (metis fst_conv)
  then have fields: "\<And>s3f deltaf redisf securityf.
      reports (SystemConfig_fields P (dotenv src ++ environ src) b d os s3f deltaf redisf
                 securityf) e"
    by (rule SystemConfig_fields_reports)
  show ?thesis
    using new None decodable
    by (auto simp: SystemConfig_new_def Let_def vb b vd d vo os factory_error_def
          infrastructure_field_Inl
          split: prod.splits sum.splits
          dest: construct_raise_reports [OF fields] dest!: infrastructure_field_Inr)
qed

lemma missing_token_resolution:
  "get_settings sample_coercions missing_token_source fresh =
     (Inl (ValidationError ''SystemConfig'' [([''databricks'', ''token''], ''field required'')]),
      \<lparr>settings_cache = None,
       constructed = [''OpenSearchConfig'', ''S3Config'', ''DeltaConfig'', ''RedisConfig'',
                      ''SecurityConfig'']\<rparr>)"
  by (simp add: resolution_defs sub_config_defs field_defs sample_defs)

lemma bare_databricks_resolution:
  "get_settings sample_coercions bare_databricks_source fresh =
     (Inl (ValidationError ''S3Config'' [([''bucket_name''], ''field required'')]), fresh)"
  by (simp add: resolution_defs sub_config_defs field_defs sample_defs)

lemma missing_token_sources:
  "sources_error missing_token_source = None
   \<and> factory_error sample_coercions missing_token_source = None"
  by (simp add: sources_error_def factory_error_def sub_config_defs field_defs sample_defs)

lemma bare_databricks_sources:
  "sources_error bare_databricks_source = None
   \<and> factory_error sample_coercions bare_databricks_source
       = Some (ValidationError ''S3Config'' [([''bucket_name''], ''field required'')])"
  by (simp add: sources_error_def factory_error_def sub_config_defs field_defs sample_defs)

lemma missing_token_selected:
  "selector_values (dotenv missing_token_source ++ environ missing_token_source) ''ai_provider''
     = Some ''databricks''"
  by (simp add: selector_values_ai ai_provider_field_def field_defs sample_defs)

lemma bare_databricks_selected:
  "selector_values (dotenv bare_databricks_source ++ environ bare_databricks_source)
     ''ai_provider'' = Some ''databricks''"
  by (simp add: selector_values_ai ai_provider_field_def field_defs sample_defs)

text \<open>
  C6 (as amended). Let a backend be selected for whose field the sources hold no value,
  and let the process environment lack a variable of a field without default of its
  sub-config (one of the five of Databricks, or the endpoint of OpenSearch). Then a
  resolution with an empty cache raises a single error: it returns no snapshot, stores
  none and constructs no \<^verbatim>\<open>SystemConfig\<close>, so the field is not defaulted. The error is the
  validation error of \<^verbatim>\<open>SystemConfig\<close>, which lists the field as required under the name
  of the backend family, unless the constructor stops earlier: on the settings error of a
  sub-config variable that cannot be decoded, or else on the exception of the first
  default factory of an infrastructure sub-config that raises, which is then the error
  raised.
\<close>

theorem C6_missing_required_field:
  assumes cache: "settings_cache s = None"
    and call: "get_settings P src s = (r, s')"
    and missing:
      "(family = ''databricks'' \<and> supplied_databricks src = Absent
          \<and> (selector_values (dotenv src ++ environ src) ''ai_provider'' = Some ''databricks''
               \<or> selector_values (dotenv src ++ environ src) ''search_provider''
                   = Some ''databricks_vector''
               \<or> selector_values (dotenv src ++ environ src) ''vector_provider''
                   = Some ''databricks_vector'')
          \<and> (var, fld) \<in> set databricks_required)
       \<or> (family = ''opensearch'' \<and> supplied_opensearch src = Absent
          \<and> (selector_values (dotenv src ++ environ src) ''search_provider''
                   = Some ''opensearch''
               \<or> selector_values (dotenv src ++ environ src) ''vector_provider''
                   = Some ''opensearch'')
          \<and> (var, fld) \<in> set opensearch_required)"
    and unset: "environ src var = None"
  shows "\<exists>e. r = Inl e \<and> snapshot (r, s') = None \<and> settings_cache s' = None
           \<and> count_list (constructed s') ''SystemConfig''
               = count_list (constructed s) ''SystemConfig''
           \<and> (\<forall>e1. sources_error src = Some e1 \<longrightarrow> e = e1)
           \<and> (sources_error src = None \<longrightarrow>
                (\<forall>e2. factory_error P src = Some e2 \<longrightarrow> e = e2)
                \<and> (factory_error P src = None \<longrightarrow>
                     (\<exists>es. e = ValidationError ''SystemConfig'' es
                           \<and> ([family, fld], ''field required'') \<in> set es)
                     \<and> names_field e family fld))"
proof -
  obtain rr l where new: "SystemConfig_new P src (constructed s) = (rr, l)"
    by (cases "SystemConfig_new P src (constructed s)")
  have rep: "(\<forall>l1 l2. reports (fst (type_checked ''DatabricksConfig'' ''databricks''
                  (fst (validate_databricks_config (environ src)
                         (raw_value (supplied_databricks src))
                         (selector_values (dotenv src ++ environ src)) l1)) l2))
                  ([family, fld], ''field required''))
            \<or> (\<forall>l1 l2. reports (fst (type_checked ''OpenSearchConfig'' ''opensearch''
                  (fst (validate_opensearch_config P (environ src)
                         (raw_value (supplied_opensearch src))
                         (selector_values (dotenv src ++ environ src)) l1)) l2))
                  ([family, fld], ''field required''))"
    using missing
  proof
    assume h: "family = ''databricks'' \<and> supplied_databricks src = Absent
          \<and> (selector_values (dotenv src ++ environ src) ''ai_provider'' = Some ''databricks''
               \<or> selector_values (dotenv src ++ environ src) ''search_provider''
                   = Some ''databricks_vector''
               \<or> selector_values (dotenv src ++ environ src) ''vector_provider''
                   = Some ''databricks_vector'')
          \<and> (var, fld) \<in> set databricks_required"
    then have "\<forall>l1 l2. reports (fst (type_checked ''DatabricksConfig'' ''databricks''
                  (fst (validate_databricks_config (environ src)
                         (raw_value (supplied_databricks src))
                         (selector_values (dotenv src ++ environ src)) l1)) l2))
                  ([family, fld], ''field required'')"
      using databricks_field_missing
          [of "selector_values (dotenv src ++ environ src)" var fld "environ src"]
        unset by simp
    then show ?thesis ..
  next
    assume h: "family = ''opensearch'' \<and> supplied_opensearch src = Absent
          \<and> (selector_values (dotenv src ++ environ src) ''search_provider''
                   = Some ''opensearch''
               \<or> selector_values (dotenv src ++ environ src) ''vector_provider''
                   = Some ''opensearch'')
          \<and> (var, fld) \<in> set opensearch_required"
    then have "\<forall>l1 l2. reports (fst (type_checked ''OpenSearchConfig'' ''opensearch''
                  (fst (validate_opensearch_config P (environ src)
                         (raw_value (supplied_opensearch src))
                         (selector_values (dotenv src ++ environ src)) l1)) l2))
                  ([family, fld], ''field required'')"
      using opensearch_field_missing
          [of "selector_values (dotenv src ++ environ src)" var fld "environ src" P]
        unset by simp
    then show ?thesis ..
  qed
  from SystemConfig_new_reports [OF new rep] obtain err where
    err: "rr = Inl err
           \<and> (\<forall>e1. sources_error src = Some e1 \<longrightarrow> err = e1)
           \<and> (sources_error src = None \<longrightarrow>
                (\<forall>e2. factory_error P src = Some e2 \<longrightarrow> err = e2)
                \<and> (factory_error P src = None \<longrightarrow>
                     (\<exists>es. err = ValidationError ''SystemConfig'' es
                           \<and> ([family, fld], ''field required'') \<in> set es)))" ..
  then have rr: "rr = Inl err" by (rule conjunct1)
  from err have first: "\<forall>e1. sources_error src = Some e1 \<longrightarrow> err = e1"
    by (rule conjunct1 [OF conjunct2])
  from err have second: "sources_error src = None \<longrightarrow>
                (\<forall>e2. factory_error P src = Some e2 \<longrightarrow> err = e2)
                \<and> (factory_error P src = None \<longrightarrow>
                     (\<exists>es. err = ValidationError ''SystemConfig'' es
                           \<and> ([family, fld], ''field required'') \<in> set es))"
    by (rule conjunct2 [OF conjunct2])
  from cache call new rr have r: "r = Inl err" and s': "s' = s\<lparr>constructed := l\<rparr>"
    by (simp_all add: get_settings_def)
  have count: "count_list (constructed s') ''SystemConfig''
                 = count_list (constructed s) ''SystemConfig''"
    using SystemConfig_new_Inl_log [OF new [unfolded rr]] by (simp add: s')
  have named: "names_field err family fld"
    if "\<exists>es. err = ValidationError ''SystemConfig'' es
              \<and> ([family, fld], ''field required'') \<in> set es"
  proof -
    from that obtain es where "err = ValidationError ''SystemConfig'' es"
      "([family, fld], ''field required'') \<in> set es" by (elim exE conjE)
    then show ?thesis by (simp add: image_iff) (rule bexI [of _ "([family, fld], ''field required'')"], simp_all)
  qed
  have third: "sources_error src = None \<longrightarrow>
                (\<forall>e2. factory_error P src = Some e2 \<longrightarrow> err = e2)
                \<and> (factory_error P src = None \<longrightarrow>
                     (\<exists>es. err = ValidationError ''SystemConfig'' es
                           \<and> ([family, fld], ''field required'') \<in> set es)
                     \<and> names_field err family fld)"
  proof (intro impI conjI)
    assume none: "sources_error src = None"
    from second none have both: "(\<forall>e2. factory_error P src = Some e2 \<longrightarrow> err = e2)
                \<and> (factory_error P src = None \<longrightarrow>
                     (\<exists>es. err = ValidationError ''SystemConfig'' es
                           \<and> ([family, fld], ''field required'') \<in> set es))"
      by (rule mp)
    then show "\<forall>e2. factory_error P src = Some e2 \<longrightarrow> err = e2"
      by (rule conjunct1)
    assume ok: "factory_error P src = None"
    from conjunct2 [OF both] ok show listed: "\<exists>es. err = ValidationError ''SystemConfig'' es
                           \<and> ([family, fld], ''field required'') \<in> set es"
      by (rule mp)
    then show "names_field err family fld" by (rule named)
  qed
  have state: "snapshot (r, s') = None" "settings_cache s' = None"
    using r s' cache by (simp_all add: snapshot_def)
  show ?thesis
    by (intro exI [of _ err] conjI r state count first third)
qed

theorem C6_missing_required_field_witness:
  "settings_cache fresh = None
   \<and> supplied_databricks missing_token_source = Absent
   \<and> selector_values (dotenv missing_token_source ++ environ missing_token_source)
        ''ai_provider'' = Some ''databricks''
   \<and> (''DATABRICKS_TOKEN'', ''token'') \<in> set databricks_required
   \<and> environ missing_token_source ''DATABRICKS_TOKEN'' = None
   \<and> sources_error missing_token_source = None
   \<and> factory_error sample_coercions missing_token_source = None
   \<and> fst (get_settings sample_coercions missing_token_source fresh)
       = Inl (ValidationError ''SystemConfig'' [([''databricks'', ''token''], ''field required'')])
   \<and> names_field (ValidationError ''SystemConfig'' [([''databricks'', ''token''], ''field required'')])
        ''databricks'' ''token''
   \<and> snapshot (get_settings sample_coercions missing_token_source fresh) = None"
  using C6_missing_required_field
    [where family = "''databricks''" and var = "''DATABRICKS_TOKEN''" and fld = "''token''",
     OF _ missing_token_resolution]
    missing_token_sources missing_token_selected
  unfolding missing_token_resolution
  by (simp add: snapshot_def fresh_def databricks_required_def missing_token_source_def
        sample_source_def databricks_env_def)

text \<open>
  C6 as stated fails: with Databricks selected and no variable set but the selector, the
  Databricks sub-config lacks all its required fields, yet the error raised is the one of
  the S3 factory, which names neither Databricks nor any of its fields.
\<close>

theorem C6_error_names_field_counterexample:
  "selector_values (dotenv bare_databricks_source ++ environ bare_databricks_source)
     ''ai_provider'' = Some ''databricks''
   \<and> supplied_databricks bare_databricks_source = Absent
   \<and> environ bare_databricks_source ''DATABRICKS_WORKSPACE_URL'' = None
   \<and> get_settings sample_coercions bare_databricks_source fresh
       = (Inl (ValidationError ''S3Config'' [([''bucket_name''], ''field required'')]), fresh)
   \<and> \<not> names_field (ValidationError ''S3Config'' [([''bucket_name''], ''field required'')])
          ''databricks'' ''workspace_url''"
  using bare_databricks_selected bare_databricks_resolution
  by (simp add: bare_databricks_source_def sample_source_def)

end
